theory Spec2Isabelle
  imports Complex_Main
begin

section \<open>Python values, exceptions and log records\<close>

text \<open>
  Both scripts report to the operator through \<^verbatim>\<open>logging\<close> only. A log record is the
  level of the call and the f-string it was given. The f-string is kept as its fragments:
  \<open>Lit\<close> is literal text (or an interpolated \<^verbatim>\<open>str\<close>), \<open>Fmt v\<close> is an interpolated
  value \<^verbatim>\<open>{v}\<close>, whatever text Python formats it to.

  An exception is a value: every function that can raise returns \<open>exn + 'a\<close>, with
  \<open>Inl\<close> the exception.
\<close>

datatype exn = IndexError | GoogleAPIError string | OSError string

datatype pyval =
    PyNone
  | PyInt int
  | PyStr string
  | PyExc exn
  | PyDict "(string \<times> string) list"

datatype frag = Lit string | Fmt pyval

datatype level = INFO | WARNING | ERROR

type_synonym log_record = "level \<times> frag list"

definition DATASET_ID :: string where
  "DATASET_ID = ''gigmart''"

text \<open>\<^verbatim>\<open>xs[0]\<close>: IndexError on an empty sequence.\<close>

definition getitem0 :: "'a list \<Rightarrow> exn + 'a" where
  "getitem0 xs = (case xs of [] \<Rightarrow> Inl IndexError | x # _ \<Rightarrow> Inr x)"


section \<open>The warehouse tables read by the quality gate\<close>

text \<open>
  The columns are those of the DDL in \<^verbatim>\<open>run_pipeline.py\<close> that the four checks read.
  \<^verbatim>\<open>transaction_id STRING NOT NULL\<close>, \<^verbatim>\<open>customer_sk INT64\<close> (nullable),
  \<^verbatim>\<open>total_amount FLOAT64\<close>, \<^verbatim>\<open>created_at TIMESTAMP\<close> in \<^verbatim>\<open>fact_transactions\<close>;
  \<^verbatim>\<open>customer_sk INT64 NOT NULL\<close>, \<^verbatim>\<open>valid_from TIMESTAMP NOT NULL\<close>,
  \<^verbatim>\<open>valid_to TIMESTAMP\<close> in \<^verbatim>\<open>dim_customers\<close>. A nullable column is an option, a
  timestamp is its number of microseconds.
\<close>

record fact_row =
  transaction_id :: string
  customer_sk :: "int option"
  total_amount :: "real option"
  created_at :: "int option"

record dim_row =
  dim_customer_sk :: int
  valid_from :: int
  valid_to :: "int option"

record warehouse =
  fact_transactions :: "fact_row list"
  dim_customers :: "dim_row list"


section \<open>The four queries of \<^verbatim>\<open>check_data_quality.main\<close>\<close>

datatype query = query_uniqueness | query_ref_integrity | query_nulls | query_scd_logic

text \<open>\<^verbatim>\<open>SELECT COUNT(*) FROM ...\<close>: one row with one integer cell.\<close>

definition count_star :: "'a list \<Rightarrow> pyval list list" where
  "count_star rs = [[PyInt (int (length rs))]]"

text \<open>
  \<^verbatim>\<open>SELECT transaction_id, COUNT(*) FROM fact_transactions GROUP BY transaction_id\<close>:
  one row per distinct \<^verbatim>\<open>transaction_id\<close>, with the number of fact rows carrying it.
\<close>

definition group_by_transaction_id :: "fact_row list \<Rightarrow> (string \<times> nat) list" where
  "group_by_transaction_id fs =
     map (\<lambda>t. (t, length (filter (\<lambda>f. transaction_id f = t) fs)))
       (remdups (map transaction_id fs))"

text \<open>\<^verbatim>\<open>... HAVING COUNT(*) > 1\<close>, counted.\<close>

definition sql_uniqueness :: "warehouse \<Rightarrow> pyval list list" where
  "sql_uniqueness wh =
     count_star (filter (\<lambda>(t, c). c > 1) (group_by_transaction_id (fact_transactions wh)))"

text \<open>
  \<^verbatim>\<open>fact_transactions f LEFT JOIN dim_customers d ON f.customer_sk = d.customer_sk\<close>:
  every fact row is paired with each dimension row of the same key, and a fact row with
  no match (a NULL key matches nothing) is kept once, with a NULL dimension side.
\<close>

definition left_join :: "fact_row list \<Rightarrow> dim_row list \<Rightarrow> (fact_row \<times> dim_row option) list" where
  "left_join fs ds =
     concat (map (\<lambda>f.
        case filter (\<lambda>d. customer_sk f = Some (dim_customer_sk d)) ds of
          [] \<Rightarrow> [(f, None)]
        | m # ms \<Rightarrow> map (\<lambda>d. (f, Some d)) (m # ms)) fs)"

text \<open>\<^verbatim>\<open>... WHERE d.customer_sk IS NULL\<close>, counted.\<close>

definition sql_ref_integrity :: "warehouse \<Rightarrow> pyval list list" where
  "sql_ref_integrity wh =
     count_star (filter (\<lambda>(f, d). case d of None \<Rightarrow> True | Some d' \<Rightarrow> False)
       (left_join (fact_transactions wh) (dim_customers wh)))"

text \<open>\<^verbatim>\<open>... WHERE total_amount IS NULL OR created_at IS NULL\<close>, counted.\<close>

definition sql_nulls :: "warehouse \<Rightarrow> pyval list list" where
  "sql_nulls wh =
     count_star (filter (\<lambda>f. total_amount f = None \<or> created_at f = None)
       (fact_transactions wh))"

text \<open>\<^verbatim>\<open>... WHERE valid_to IS NOT NULL AND valid_to < valid_from\<close>, counted.\<close>

definition sql_scd_logic :: "warehouse \<Rightarrow> pyval list list" where
  "sql_scd_logic wh =
     count_star (filter (\<lambda>d. case valid_to d of None \<Rightarrow> False | Some t \<Rightarrow> t < valid_from d)
       (dim_customers wh))"

definition execute :: "warehouse \<Rightarrow> query \<Rightarrow> pyval list list" where
  "execute wh q =
     (case q of
        query_uniqueness \<Rightarrow> sql_uniqueness wh
      | query_ref_integrity \<Rightarrow> sql_ref_integrity wh
      | query_nulls \<Rightarrow> sql_nulls wh
      | query_scd_logic \<Rightarrow> sql_scd_logic wh)"

text \<open>
  \<^verbatim>\<open>list(client.query(query).result())\<close>: the rows of the result, or the exception the
  call raised. A client is any such function; \<open>bigquery wh\<close> is the one that answers
  every query from the warehouse state \<open>wh\<close>.
\<close>

type_synonym client = "query \<Rightarrow> exn + pyval list list"

definition bigquery :: "warehouse \<Rightarrow> client" where
  "bigquery wh = (\<lambda>q. Inr (execute wh q))"


section \<open>\<^verbatim>\<open>check_data_quality.py\<close>\<close>

text \<open>The three \<^verbatim>\<open>logging\<close> calls of \<^verbatim>\<open>run_test\<close>.\<close>

definition log_pass :: "string \<Rightarrow> log_record" where
  "log_pass test_name = (INFO, [Lit ''[PASS] '', Lit test_name])"

definition log_fail :: "string \<Rightarrow> pyval \<Rightarrow> pyval \<Rightarrow> log_record" where
  "log_fail test_name expected_result count =
     (ERROR, [Lit ''[FAIL] '', Lit test_name, Lit '': Expected '', Fmt expected_result,
              Lit '', Got '', Fmt count])"

definition log_error :: "string \<Rightarrow> exn \<Rightarrow> log_record" where
  "log_error test_name e = (ERROR, [Lit ''[ERROR] '', Lit test_name, Lit '': '', Fmt (PyExc e)])"

text \<open>
  The \<^verbatim>\<open>try\<close> block of \<^verbatim>\<open>run_test\<close>: the value it returns with what it logged, or the
  exception raised in it. \<^verbatim>\<open>count = results[0][0] if results else 0\<close>.
\<close>

definition run_test_try ::
  "client \<Rightarrow> string \<Rightarrow> query \<Rightarrow> pyval \<Rightarrow> exn + (bool \<times> log_record list)" where
  "run_test_try client test_name query expected_result =
     (case client query of
        Inl e \<Rightarrow> Inl e
      | Inr results \<Rightarrow>
          (case (if results \<noteq> []
                 then (case getitem0 results of Inl e \<Rightarrow> Inl e | Inr row \<Rightarrow> getitem0 row)
                 else Inr (PyInt 0)) of
             Inl e \<Rightarrow> Inl e
           | Inr count \<Rightarrow>
               (if count = expected_result
                then Inr (True, [log_pass test_name])
                else Inr (False, [log_fail test_name expected_result count]))))"

text \<open>
  \<^verbatim>\<open>run_test\<close>: what it returns (or raises) and what it logs. The handler
  \<^verbatim>\<open>except Exception as e\<close> logs and returns False.
\<close>

definition run_test ::
  "client \<Rightarrow> string \<Rightarrow> query \<Rightarrow> pyval \<Rightarrow> (exn + bool) \<times> log_record list" where
  "run_test client test_name query expected_result =
     (case run_test_try client test_name query expected_result of
        Inr (b, l) \<Rightarrow> (Inr b, l)
      | Inl e \<Rightarrow> (Inr False, [log_error test_name e]))"

text \<open>
  Sequencing of two statements: an exception of the first ends the function, otherwise the
  second runs on the value of the first, and the logs follow each other.
\<close>

definition then_do ::
  "(exn + 'a) \<times> log_record list \<Rightarrow> ('a \<Rightarrow> (exn + 'b) \<times> log_record list) \<Rightarrow>
   (exn + 'b) \<times> log_record list" where
  "then_do m f =
     (case m of
        (Inl e, l) \<Rightarrow> (Inl e, l)
      | (Inr x, l) \<Rightarrow> (case f x of (y, l') \<Rightarrow> (y, l @ l')))"

text \<open>
  \<^verbatim>\<open>main\<close> of \<^verbatim>\<open>check_data_quality.py\<close>. Each \<open>all_tests_passed\<close>\<open>i\<close> is the variable
  \<^verbatim>\<open>all_tests_passed\<close> after the \<open>i\<close>-th \<^verbatim>\<open>if not run_test(...): all_tests_passed = False\<close>.
\<close>

definition main_check_data_quality ::
  "string \<Rightarrow> client \<Rightarrow> (exn + bool) \<times> log_record list" where
  "main_check_data_quality PROJECT_ID client =
     (let dataset_ref = PROJECT_ID @ ''.'' @ DATASET_ID;
          all_tests_passed0 = True
      in
      then_do (Inr (),
        [(INFO, [Lit ''Starting Data Quality Checks on '', Lit dataset_ref, Lit ''...''])])
      (\<lambda>_.
      then_do (run_test client ''Uniqueness Check (Fact Transactions)'' query_uniqueness (PyInt 0))
      (\<lambda>r1. let all_tests_passed1 = (if \<not> r1 then False else all_tests_passed0) in
      then_do (run_test client ''Referential Integrity (Customer FK)'' query_ref_integrity (PyInt 0))
      (\<lambda>r2. let all_tests_passed2 = (if \<not> r2 then False else all_tests_passed1) in
      then_do (run_test client ''Null Value Check (Critical Columns)'' query_nulls (PyInt 0))
      (\<lambda>r3. let all_tests_passed3 = (if \<not> r3 then False else all_tests_passed2) in
      then_do (run_test client ''SCD Logic Check (Time Travel)'' query_scd_logic (PyInt 0))
      (\<lambda>r4. let all_tests_passed4 = (if \<not> r4 then False else all_tests_passed3) in
      (if all_tests_passed4
       then (Inr True, [(INFO, [Lit ''All Data Quality checks passed successfully!''])])
       else (Inr False, [(ERROR, [Lit ''Some Data Quality checks failed.''])]))))))))"

text \<open>
  The script run standalone: \<^verbatim>\<open>result = main(); sys.exit(0 if result else 1)\<close>. The value
  is the exit status of the process; Python ends with status 1 on an uncaught exception.
\<close>

definition script_check_data_quality :: "string \<Rightarrow> client \<Rightarrow> int" where
  "script_check_data_quality PROJECT_ID client =
     (case fst (main_check_data_quality PROJECT_ID client) of
        Inr result \<Rightarrow> (if result then 0 else 1)
      | Inl e \<Rightarrow> 1)"

text \<open>A check passes when \<^verbatim>\<open>run_test\<close> returns True for it.\<close>

definition passes :: "client \<Rightarrow> string \<Rightarrow> query \<Rightarrow> bool" where
  "passes client test_name query = (fst (run_test client test_name query (PyInt 0)) = Inr True)"

text \<open>The warehouse state of Scenario D of the spec, around one resolved transaction.\<close>

definition scenario_D :: warehouse where
  "scenario_D =
     \<lparr>fact_transactions =
        [\<lparr>transaction_id = ''tx_1'', customer_sk = Some 1,
          total_amount = Some 10, created_at = Some 1700000000\<rparr>,
         \<lparr>transaction_id = ''tx_9'', customer_sk = Some (- 1),
          total_amount = Some 25, created_at = Some 1700000001\<rparr>],
      dim_customers =
        [\<lparr>dim_customer_sk = 1, valid_from = 1600000000, valid_to = None\<rparr>]\<rparr>"


section \<open>Programs of \<^verbatim>\<open>ingest_gcp.py\<close>: exceptions, log and the outside world\<close>

text \<open>
  A statement of \<^verbatim>\<open>ingest_gcp.py\<close> runs in a world \<open>'w\<close> (the local files, the bucket and
  the warehouse). It returns a value or raises, logs some records, and leaves a new world.
\<close>

type_synonym ('a, 'w) prog = "'w \<Rightarrow> (exn + 'a) \<times> log_record list \<times> 'w"

definition return :: "'a \<Rightarrow> ('a, 'w) prog" where
  "return x = (\<lambda>w. (Inr x, [], w))"

definition logging :: "log_record \<Rightarrow> (unit, 'w) prog" where
  "logging r = (\<lambda>w. (Inr (), [r], w))"

text \<open>\<open>m\<close>, then \<open>f\<close> on its value; an exception of \<open>m\<close> skips \<open>f\<close>.\<close>

definition bind_io :: "('a, 'w) prog \<Rightarrow> ('a \<Rightarrow> ('b, 'w) prog) \<Rightarrow> ('b, 'w) prog" where
  "bind_io m f =
     (\<lambda>w. case m w of
        (Inl e, l, w') \<Rightarrow> (Inl e, l, w')
      | (Inr x, l, w') \<Rightarrow> (case f x w' of (y, l', w'') \<Rightarrow> (y, l @ l', w'')))"

text \<open>\<^verbatim>\<open>try: m  except Exception as e: h\<close>.\<close>

definition try_except :: "('a, 'w) prog \<Rightarrow> (exn \<Rightarrow> ('a, 'w) prog) \<Rightarrow> ('a, 'w) prog" where
  "try_except m h =
     (\<lambda>w. case m w of
        (Inl e, l, w') \<Rightarrow> (case h e w' of (y, l', w'') \<Rightarrow> (y, l @ l', w''))
      | (Inr x, l, w') \<Rightarrow> (Inr x, l, w'))"

text \<open>\<^verbatim>\<open>for x in xs: body\<close>.\<close>

fun for_each :: "'a list \<Rightarrow> ('a \<Rightarrow> (unit, 'w) prog) \<Rightarrow> (unit, 'w) prog" where
  "for_each [] body = return ()"
| "for_each (x # xs) body = bind_io (body x) (\<lambda>_. for_each xs body)"


section \<open>The load job configuration and the client libraries\<close>

datatype source_format = CSV | NEWLINE_DELIMITED_JSON

datatype schema_update_option = ALLOW_FIELD_ADDITION | ALLOW_FIELD_RELAXATION

datatype write_disposition = WRITE_APPEND | WRITE_TRUNCATE | WRITE_EMPTY

datatype field_type = STRING | DATE | INTEGER | FLOAT | TIMESTAMP

text \<open>\<^verbatim>\<open>bigquery.LoadJobConfig\<close>, the options the two loaders set.\<close>

record load_job_config =
  source_format :: source_format
  skip_leading_rows :: "nat option"
  autodetect :: bool
  schema :: "(string \<times> field_type) list option"
  schema_update_options :: "schema_update_option list"
  write_disposition :: write_disposition
  max_bad_records :: nat
  ignore_unknown_values :: bool

text \<open>An entry of \<^verbatim>\<open>load_job.errors\<close>: what was wrong (\<open>reason\<close>, \<open>message\<close>) and where.\<close>

record load_error =
  reason :: string
  location :: string
  message :: string

definition error_dict :: "load_error \<Rightarrow> pyval" where
  "error_dict e =
     PyDict [(''reason'', reason e), (''location'', location e), (''message'', message e)]"

text \<open>
  The load job the client hands back: \<open>result\<close> is what \<^verbatim>\<open>load_job.result()\<close> raises, if
  anything; \<open>errors\<close> is \<^verbatim>\<open>load_job.errors\<close> (empty when there is none).
\<close>

record load_job =
  result :: "exn option"
  errors :: "load_error list"

text \<open>
  A table of the warehouse: its column names and its rows. A row holds the cells that are
  not NULL, by column name. \<^verbatim>\<open>table.num_rows\<close> is the number of rows of the table.
\<close>

record table =
  table_schema :: "string list"
  table_rows :: "(string \<times> string) list list"

definition num_rows :: "table \<Rightarrow> int" where
  "num_rows t = int (length (table_rows t))"

text \<open>
  The environment of the script: its module constants \<^verbatim>\<open>PROJECT_ID\<close>, \<^verbatim>\<open>BUCKET_NAME\<close>
  and the data directory, and the calls it makes to \<^verbatim>\<open>os\<close>, to the storage client and to
  the BigQuery client. Every call may raise. Nothing is assumed about them here.
\<close>

record 'w env =
  project_id :: string
  bucket_name :: string
  base_dir :: string
  path_exists :: "string \<Rightarrow> 'w \<Rightarrow> bool"
  listdir :: "string \<Rightarrow> 'w \<Rightarrow> exn + string list"
  upload_from_filename :: "string \<Rightarrow> string \<Rightarrow> 'w \<Rightarrow> exn option \<times> 'w"
  get_dataset :: "string \<Rightarrow> 'w \<Rightarrow> exn option"
  create_dataset :: "string \<Rightarrow> string \<Rightarrow> 'w \<Rightarrow> exn option \<times> 'w"
  load_table_from_uri :: "string \<Rightarrow> string \<Rightarrow> load_job_config \<Rightarrow> 'w \<Rightarrow> (exn + load_job) \<times> 'w"
  get_table :: "string \<Rightarrow> 'w \<Rightarrow> exn + table"

definition REGION :: string where
  "REGION = ''asia-east1''"

text \<open>A call that changes the world and may raise, and one that only reads it.\<close>

definition call :: "('w \<Rightarrow> (exn + 'a) \<times> 'w) \<Rightarrow> ('a, 'w) prog" where
  "call f = (\<lambda>w. case f w of (r, w') \<Rightarrow> (r, [], w'))"

definition query_world :: "('w \<Rightarrow> exn + 'a) \<Rightarrow> ('a, 'w) prog" where
  "query_world f = (\<lambda>w. (f w, [], w))"

definition raise_if :: "exn option \<Rightarrow> exn + unit" where
  "raise_if r = (case r of None \<Rightarrow> Inr () | Some e \<Rightarrow> Inl e)"


section \<open>\<^verbatim>\<open>ingest_gcp.py\<close>\<close>

text \<open>\<^verbatim>\<open>upload_to_gcs\<close>: the URI of the uploaded blob, or None when the upload raised.\<close>

definition upload_to_gcs :: "'w env \<Rightarrow> string \<Rightarrow> string \<Rightarrow> (string option, 'w) prog" where
  "upload_to_gcs env local_file_path destination_blob_name =
     try_except
       (bind_io (call (\<lambda>w. case upload_from_filename env destination_blob_name local_file_path w of
                              (r, w') \<Rightarrow> (raise_if r, w')))
        (\<lambda>_. bind_io (logging (INFO, [Lit ''File '', Lit local_file_path, Lit '' uploaded to '',
                                     Lit destination_blob_name, Lit ''.'']))
        (\<lambda>_. return (Some (''gs://'' @ bucket_name env @ ''/'' @ destination_blob_name)))))
       (\<lambda>e. bind_io (logging (ERROR, [Lit ''Failed to upload '', Lit local_file_path, Lit '': '',
                                     Fmt (PyExc e)]))
        (\<lambda>_. return None))"

text \<open>\<^verbatim>\<open>create_dataset_if_not_exists\<close>: an exception of \<^verbatim>\<open>create_dataset\<close> is not caught.\<close>

definition create_dataset_if_not_exists :: "'w env \<Rightarrow> (unit, 'w) prog" where
  "create_dataset_if_not_exists env =
     (let dataset_id = project_id env @ ''.'' @ DATASET_ID in
      try_except
        (bind_io (query_world (\<lambda>w. raise_if (get_dataset env dataset_id w)))
         (\<lambda>_. logging (INFO, [Lit ''Dataset '', Lit dataset_id, Lit '' already exists.''])))
        (\<lambda>_. bind_io (call (\<lambda>w. case create_dataset env dataset_id REGION w of
                                   (r, w') \<Rightarrow> (raise_if r, w')))
         (\<lambda>_. logging (INFO, [Lit ''Created dataset '', Lit dataset_id, Lit ''.'']))))"

text \<open>The job configuration of \<^verbatim>\<open>load_csv_to_bq\<close>.\<close>

definition csv_job_config :: load_job_config where
  "csv_job_config =
     \<lparr>source_format = CSV,
      skip_leading_rows = Some 1,
      autodetect = True,
      schema = None,
      schema_update_options = [ALLOW_FIELD_ADDITION, ALLOW_FIELD_RELAXATION],
      write_disposition = WRITE_APPEND,
      max_bad_records = 100,
      ignore_unknown_values = True\<rparr>"

text \<open>The explicit schema of \<^verbatim>\<open>load_json_to_bq\<close>, by table name.\<close>

definition json_schema :: "string \<Rightarrow> (string \<times> field_type) list option" where
  "json_schema table_name =
     (if table_name = ''stg_pos_transactions'' then
        Some [(''transaction_id'', STRING), (''store_id'', STRING), (''customer_id'', STRING),
              (''product_id'', STRING), (''transaction_date'', DATE), (''quantity'', INTEGER),
              (''unit_price'', FLOAT), (''amount'', FLOAT), (''event_type'', STRING),
              (''currency'', STRING), (''timestamp'', TIMESTAMP)]
      else if table_name = ''stg_ecommerce_orders'' then
        Some [(''order_id'', STRING), (''customer_id'', STRING), (''product_id'', STRING),
              (''order_date'', DATE), (''quantity'', INTEGER), (''unit_price'', FLOAT),
              (''store_id'', STRING), (''total_amount'', FLOAT), (''payment_type'', STRING),
              (''timestamp'', TIMESTAMP)]
      else None)"

text \<open>The job configuration of \<^verbatim>\<open>load_json_to_bq\<close>.\<close>

definition json_job_config :: "string \<Rightarrow> load_job_config" where
  "json_job_config table_name =
     \<lparr>source_format = NEWLINE_DELIMITED_JSON,
      skip_leading_rows = None,
      autodetect = (json_schema table_name = None),
      schema = json_schema table_name,
      schema_update_options =
        (if json_schema table_name \<noteq> None then [ALLOW_FIELD_ADDITION] else []),
      write_disposition = WRITE_APPEND,
      max_bad_records = 100,
      ignore_unknown_values = True\<rparr>"

text \<open>The \<^verbatim>\<open>logging\<close> calls of the two loaders, in the order of the source.\<close>

definition log_loaded :: "string \<Rightarrow> int \<Rightarrow> log_record" where
  "log_loaded table_id n = (INFO, [Lit ''Loaded '', Fmt (PyInt n), Lit '' rows to '', Lit table_id])"

definition log_bad_count :: "string \<Rightarrow> int \<Rightarrow> log_record" where
  "log_bad_count table_name n =
     (WARNING, [Lit ''Bad records in '', Lit table_name, Lit '': '', Fmt (PyInt n), Lit '' errors''])"

definition log_bad_record :: "load_error \<Rightarrow> log_record" where
  "log_bad_record error = (WARNING, [Lit ''  Error: '', Fmt (error_dict error)])"

definition log_zero_rows :: "string \<Rightarrow> log_record" where
  "log_zero_rows table_id = (WARNING, [Lit ''WARNING: Zero rows loaded to '', Lit table_id])"

definition log_failed_to_load :: "string \<Rightarrow> exn \<Rightarrow> log_record" where
  "log_failed_to_load table_name e =
     (ERROR, [Lit ''Failed to load '', Lit table_name, Lit '': '', Fmt (PyExc e)])"

text \<open>
  The \<^verbatim>\<open>try\<close> block shared, line by line, by \<^verbatim>\<open>load_csv_to_bq\<close> and
  \<^verbatim>\<open>load_json_to_bq\<close>: submit the job, wait for it, read the table, then log.
\<close>

definition load_try ::
  "'w env \<Rightarrow> string \<Rightarrow> string \<Rightarrow> string \<Rightarrow> load_job_config \<Rightarrow> (unit, 'w) prog" where
  "load_try env gcs_uri table_name table_id job_config =
     bind_io (call (load_table_from_uri env gcs_uri table_id job_config))
     (\<lambda>load_job. bind_io (query_world (\<lambda>w. raise_if (result load_job)))
     (\<lambda>_. bind_io (query_world (get_table env table_id))
     (\<lambda>table. bind_io (logging (log_loaded table_id (num_rows table)))
     (\<lambda>_. bind_io
        (if errors load_job \<noteq> []
         then bind_io (logging (log_bad_count table_name (int (length (errors load_job)))))
              (\<lambda>_. for_each (take 5 (errors load_job))
                      (\<lambda>error. logging (log_bad_record error)))
         else return ())
     (\<lambda>_. if num_rows table = 0
           then logging (log_zero_rows table_id)
           else return ())))))"

definition load_csv_to_bq :: "'w env \<Rightarrow> string \<Rightarrow> string \<Rightarrow> (unit, 'w) prog" where
  "load_csv_to_bq env gcs_uri table_name =
     (let table_id = project_id env @ ''.'' @ DATASET_ID @ ''.'' @ table_name;
          job_config = csv_job_config
      in try_except (load_try env gcs_uri table_name table_id job_config)
           (\<lambda>e. logging (log_failed_to_load table_name e)))"

definition load_json_to_bq :: "'w env \<Rightarrow> string \<Rightarrow> string \<Rightarrow> (unit, 'w) prog" where
  "load_json_to_bq env gcs_uri table_name =
     (let table_id = project_id env @ ''.'' @ DATASET_ID @ ''.'' @ table_name;
          job_config = json_job_config table_name
      in try_except (load_try env gcs_uri table_name table_id job_config)
           (\<lambda>e. logging (log_failed_to_load table_name e)))"

text \<open>\<^verbatim>\<open>s.endswith(suffix)\<close> and \<^verbatim>\<open>os.path.join\<close> of a directory and a plain name.\<close>

definition endswith :: "string \<Rightarrow> string \<Rightarrow> bool" where
  "endswith s suffix =
     (length suffix \<le> length s \<and> drop (length s - length suffix) s = suffix)"

definition path_join :: "string \<Rightarrow> string \<Rightarrow> string" where
  "path_join dir name = dir @ ''/'' @ name"

text \<open>The two loaders, as \<^verbatim>\<open>ingestion_map\<close> names them.\<close>

datatype loader_func = load_csv | load_json

definition run_loader :: "loader_func \<Rightarrow> 'w env \<Rightarrow> string \<Rightarrow> string \<Rightarrow> (unit, 'w) prog" where
  "run_loader loader_func env gcs_uri table_name =
     (case loader_func of
        load_csv \<Rightarrow> load_csv_to_bq env gcs_uri table_name
      | load_json \<Rightarrow> load_json_to_bq env gcs_uri table_name)"

text \<open>\<^verbatim>\<open>ingestion_map\<close>, in the order of the dictionary.\<close>

definition ingestion_map :: "(string \<times> string \<times> loader_func) list" where
  "ingestion_map =
     [(''crm'', ''stg_crm_customers'', load_csv),
      (''erp'', ''stg_erp_inventory'', load_csv),
      (''ecommerce'', ''stg_ecommerce_orders'', load_json),
      (''pos'', ''stg_pos_transactions'', load_json)]"

definition log_triggering :: "string \<Rightarrow> log_record" where
  "log_triggering table_name =
     (INFO, [Lit ''Triggering BigQuery load for '', Lit table_name, Lit ''...''])"

text \<open>The body of the inner loop of \<^verbatim>\<open>main\<close>, for one \<^verbatim>\<open>filename\<close> of a folder.\<close>

definition ingest_file ::
  "'w env \<Rightarrow> string \<Rightarrow> string \<Rightarrow> loader_func \<Rightarrow> string \<Rightarrow> string \<Rightarrow> (unit, 'w) prog" where
  "ingest_file env source_folder table_name loader_func folder_path filename =
     (let file_path = path_join folder_path filename;
          gcs_blob_name = source_folder @ ''/'' @ filename
      in bind_io (upload_to_gcs env file_path gcs_blob_name)
         (\<lambda>gcs_uri.
            case gcs_uri of
              None \<Rightarrow> return ()
            | Some uri \<Rightarrow>
                if uri \<noteq> [] then
                  (if endswith filename ''.csv'' \<or> endswith filename ''.json'' then
                     bind_io (logging (log_triggering table_name))
                     (\<lambda>_. run_loader loader_func env uri table_name)
                   else return ())
                else return ()))"

text \<open>The body of the outer loop of \<^verbatim>\<open>main\<close>, for one entry of \<^verbatim>\<open>ingestion_map\<close>.\<close>

definition ingest_source :: "'w env \<Rightarrow> string \<times> string \<times> loader_func \<Rightarrow> (unit, 'w) prog" where
  "ingest_source env entry =
     (case entry of (source_folder, table_name, loader_func) \<Rightarrow>
        (let folder_path = path_join (base_dir env) source_folder in
         (\<lambda>w. if \<not> path_exists env folder_path w
               then logging (WARNING, [Lit ''Directory not found: '', Lit folder_path]) w
               else bind_io (query_world (listdir env folder_path))
                      (\<lambda>filenames. for_each filenames
                         (ingest_file env source_folder table_name loader_func folder_path)) w)))"

text \<open>\<^verbatim>\<open>main\<close> of \<^verbatim>\<open>ingest_gcp.py\<close>.\<close>

definition main_ingest_gcp :: "'w env \<Rightarrow> (unit, 'w) prog" where
  "main_ingest_gcp env =
     bind_io (logging (INFO, [Lit ''Looking for data in: '', Lit (base_dir env)]))
     (\<lambda>_. bind_io (create_dataset_if_not_exists env)
     (\<lambda>_. for_each ingestion_map (ingest_source env)))"


section \<open>The external services, as the script relies on them\<close>

text \<open>
  The object store and the warehouse are external. What follows is the behaviour the
  script's options ask of them, as far as the loaders observe it: a file is a list of
  records, each well-formed (its fields by name) or malformed (with the error the load
  job reports for it); a load job skips malformed records up to \<^verbatim>\<open>max_bad_records\<close> and
  fails beyond; the columns it writes are those of the explicit \<^verbatim>\<open>schema\<close> when one is
  given, else those detected in the file when \<^verbatim>\<open>autodetect\<close> is set, else those of the
  table; a field outside these columns is dropped under \<^verbatim>\<open>ignore_unknown_values\<close> and
  makes the record bad otherwise; a column new to an existing table needs
  \<^verbatim>\<open>ALLOW_FIELD_ADDITION\<close>; \<^verbatim>\<open>WRITE_APPEND\<close> keeps the rows of the table.
\<close>

datatype raw_record = Good "(string \<times> string) list" | Bad load_error

record source_file =
  file_fields :: "string list"
  file_records :: "raw_record list"

definition load_columns :: "load_job_config \<Rightarrow> source_file \<Rightarrow> string list \<Rightarrow> string list" where
  "load_columns cfg file old_schema =
     (case schema cfg of
        Some s \<Rightarrow> map fst s
      | None \<Rightarrow> if autodetect cfg then file_fields file else old_schema)"

definition unknown_fields :: "string list \<Rightarrow> (string \<times> string) list \<Rightarrow> string list" where
  "unknown_fields cols r = filter (\<lambda>k. k \<notin> set cols) (map fst r)"

definition unknown_field_error :: "string list \<Rightarrow> load_error" where
  "unknown_field_error ks =
     \<lparr>reason = ''invalid'', location = concat ks, message = ''No such field''\<rparr>"

text \<open>The errors of the records a load job with configuration \<open>cfg\<close> skips.\<close>

definition skipped :: "load_job_config \<Rightarrow> string list \<Rightarrow> raw_record list \<Rightarrow> load_error list" where
  "skipped cfg cols recs =
     concat (map (\<lambda>r. case r of
        Bad e \<Rightarrow> [e]
      | Good r \<Rightarrow>
          if ignore_unknown_values cfg \<or> unknown_fields cols r = [] then []
          else [unknown_field_error (unknown_fields cols r)]) recs)"

text \<open>The rows it writes: the cells of each accepted record that belong to a loaded column.\<close>

definition staged :: "load_job_config \<Rightarrow> string list \<Rightarrow> raw_record list \<Rightarrow> (string \<times> string) list list" where
  "staged cfg cols recs =
     concat (map (\<lambda>r. case r of
        Bad e \<Rightarrow> []
      | Good r \<Rightarrow>
          if ignore_unknown_values cfg \<or> unknown_fields cols r = []
          then [filter (\<lambda>(k, v). k \<in> set cols) r]
          else []) recs)"

text \<open>The columns and the rows of the table as it is (none when it does not exist yet).\<close>

definition schema_of :: "table option \<Rightarrow> string list" where
  "schema_of existing = (case existing of None \<Rightarrow> [] | Some t \<Rightarrow> table_schema t)"

definition rows_of :: "table option \<Rightarrow> (string \<times> string) list list" where
  "rows_of existing = (case existing of None \<Rightarrow> [] | Some t \<Rightarrow> table_rows t)"

text \<open>The load job on a file and the table as it is.\<close>

definition bq_load ::
  "load_job_config \<Rightarrow> source_file \<Rightarrow> table option \<Rightarrow> (exn + table) \<times> load_error list" where
  "bq_load cfg file existing =
     (let old_schema = schema_of existing;
          old_rows = rows_of existing;
          cols = load_columns cfg file old_schema;
          added = filter (\<lambda>c. c \<notin> set old_schema) cols;
          bad = skipped cfg cols (file_records file)
      in if length bad > max_bad_records cfg
         then (Inl (GoogleAPIError ''Too many errors encountered''), bad)
         else if existing \<noteq> None \<and> added \<noteq> []
                 \<and> ALLOW_FIELD_ADDITION \<notin> set (schema_update_options cfg)
         then (Inl (GoogleAPIError ''Provided Schema does not match Table''), bad)
         else if write_disposition cfg = WRITE_EMPTY \<and> old_rows \<noteq> []
         then (Inl (GoogleAPIError ''Already Exists: Table''), bad)
         else (Inr \<lparr>table_schema = old_schema @ added,
                    table_rows = (if write_disposition cfg = WRITE_APPEND then old_rows else [])
                                 @ staged cfg cols (file_records file)\<rparr>, bad))"

text \<open>The local directories and files, the objects of the bucket, the datasets and tables.\<close>

record world =
  local_dirs :: "string \<rightharpoonup> string list"
  local_files :: "string \<rightharpoonup> source_file"
  bucket :: "string \<rightharpoonup> source_file"
  datasets :: "string set"
  tables :: "string \<rightharpoonup> table"

text \<open>The environment in which every service is up and answers from the world.\<close>

definition gcp :: "string \<Rightarrow> string \<Rightarrow> string \<Rightarrow> world env" where
  "gcp project bucket_n dir =
     \<lparr>project_id = project,
      bucket_name = bucket_n,
      base_dir = dir,
      path_exists = (\<lambda>p w. local_dirs w p \<noteq> None),
      listdir = (\<lambda>p w. case local_dirs w p of
                         None \<Rightarrow> Inl (OSError ''No such file or directory'')
                       | Some names \<Rightarrow> Inr names),
      upload_from_filename = (\<lambda>blob path w. case local_files w path of
                         None \<Rightarrow> (Some (OSError ''No such file or directory''), w)
                       | Some f \<Rightarrow>
                           (None, w\<lparr>bucket := (bucket w)(''gs://'' @ bucket_n @ ''/'' @ blob \<mapsto> f)\<rparr>)),
      get_dataset = (\<lambda>d w. if d \<in> datasets w then None
                            else Some (GoogleAPIError ''Not found: Dataset'')),
      create_dataset = (\<lambda>d region w. (None, w\<lparr>datasets := insert d (datasets w)\<rparr>)),
      load_table_from_uri = (\<lambda>uri table_id cfg w. case bucket w uri of
                         None \<Rightarrow> (Inr \<lparr>result = Some (GoogleAPIError ''Not found: URI''),
                                        errors = []\<rparr>, w)
                       | Some f \<Rightarrow>
                           (case bq_load cfg f (tables w table_id) of
                              (Inl e, errs) \<Rightarrow> (Inr \<lparr>result = Some e, errors = errs\<rparr>, w)
                            | (Inr t, errs) \<Rightarrow>
                                (Inr \<lparr>result = None, errors = errs\<rparr>,
                                 w\<lparr>tables := (tables w)(table_id \<mapsto> t)\<rparr>))),
      get_table = (\<lambda>table_id w. case tables w table_id of
                         None \<Rightarrow> Inl (GoogleAPIError ''Not found: Table'')
                       | Some t \<Rightarrow> Inr t)\<rparr>"


section \<open>Notions used to state the properties\<close>

text \<open>A program that returns in every world.\<close>

definition never_raises :: "('a, 'w) prog \<Rightarrow> bool" where
  "never_raises m = (\<forall>w. \<exists>x l w'. m w = (Inr x, l, w'))"

text \<open>The identifier both loaders give the table: \<^verbatim>\<open>f"{PROJECT_ID}.{DATASET_ID}.{table_name}"\<close>.\<close>

definition table_id_of :: "'w env \<Rightarrow> string \<Rightarrow> string" where
  "table_id_of env table_name = project_id env @ ''.'' @ DATASET_ID @ ''.'' @ table_name"

text \<open>The job configuration a loader builds for a table.\<close>

definition job_config_of :: "loader_func \<Rightarrow> string \<Rightarrow> load_job_config" where
  "job_config_of loader_func table_name =
     (case loader_func of
        load_csv \<Rightarrow> csv_job_config
      | load_json \<Rightarrow> json_job_config table_name)"

text \<open>
  The records of a load that completed: the row count of the table, then the number of job
  errors and the first five of them if there are any, then the zero-rows warning if the
  table is empty.
\<close>

definition completed_log :: "string \<Rightarrow> string \<Rightarrow> load_error list \<Rightarrow> table \<Rightarrow> log_record list" where
  "completed_log table_name table_id job_errors t =
     log_loaded table_id (num_rows t)
     # (if job_errors \<noteq> []
        then log_bad_count table_name (int (length job_errors))
             # map log_bad_record (take 5 job_errors)
        else [])
     @ (if num_rows t = 0 then [log_zero_rows table_id] else [])"

text \<open>
  A later world keeps an earlier one: the local directories and files are the same, and
  every table has at least the rows it had.
\<close>

definition keeps :: "world \<Rightarrow> world \<Rightarrow> bool" where
  "keeps w w' =
     (local_dirs w' = local_dirs w \<and> local_files w' = local_files w
      \<and> (\<forall>table_id. set (rows_of (tables w table_id)) \<subseteq> set (rows_of (tables w' table_id))))"

text \<open>A program that returns in every world and keeps it.\<close>

definition steady :: "('a, world) prog \<Rightarrow> bool" where
  "steady m = (\<forall>w. \<exists>x l w'. m w = (Inr x, l, w') \<and> keeps w w')"


section \<open>Concrete worlds\<close>

text \<open>The services with a project, a bucket and a data directory.\<close>

definition GCP :: "world env" where
  "GCP = gcp ''proj'' ''bkt'' ''/data''"

text \<open>The error of a load job for a record it could not parse, with the offending value.\<close>

definition malformed :: "string \<Rightarrow> load_error" where
  "malformed v = \<lparr>reason = ''invalid'', location = ''gs://bkt/crm/a.csv'',
                  message = ''Could not parse '' @ v\<rparr>"

text \<open>An uploaded CRM file with one good record and six malformed ones; no table yet.\<close>

definition six_bad_file :: source_file where
  "six_bad_file =
     \<lparr>file_fields = [''customer_id''],
      file_records = [Good [(''customer_id'', ''c1'')],
                      Bad (malformed ''r1''), Bad (malformed ''r2''), Bad (malformed ''r3''),
                      Bad (malformed ''r4''), Bad (malformed ''r5''), Bad (malformed ''r6'')]\<rparr>"

definition six_bad_world :: world where
  "six_bad_world =
     \<lparr>local_dirs = Map.empty, local_files = Map.empty,
      bucket = [''gs://bkt/crm/a.csv'' \<mapsto> six_bad_file],
      datasets = {''proj.gigmart''}, tables = Map.empty\<rparr>"

text \<open>An uploaded CRM file with 101 malformed records, one more than the threshold.\<close>

definition flood_world :: world where
  "flood_world =
     \<lparr>local_dirs = Map.empty, local_files = Map.empty,
      bucket = [''gs://bkt/crm/a.csv'' \<mapsto>
                  \<lparr>file_fields = [''customer_id''],
                   file_records = replicate 101 (Bad (malformed ''r''))\<rparr>],
      datasets = {''proj.gigmart''}, tables = Map.empty\<rparr>"

text \<open>
  A second run: the staging table holds one row of an earlier load, and the uploaded file
  has a header and no record.
\<close>

definition rerun_world :: world where
  "rerun_world =
     \<lparr>local_dirs = Map.empty, local_files = Map.empty,
      bucket = [''gs://bkt/crm/a.csv'' \<mapsto> \<lparr>file_fields = [''customer_id''], file_records = []\<rparr>],
      datasets = {''proj.gigmart''},
      tables = [''proj.gigmart.stg_crm_customers'' \<mapsto>
                  \<lparr>table_schema = [''customer_id''],
                   table_rows = [[(''customer_id'', ''c0'')]]\<rparr>]\<rparr>"

text \<open>
  A POS file whose records carry a field \<^verbatim>\<open>coupon\<close> that the table does not have; the
  table exists with the columns of the loader's schema and no row.
\<close>

definition coupon_world :: world where
  "coupon_world =
     \<lparr>local_dirs = Map.empty, local_files = Map.empty,
      bucket = [''gs://bkt/pos/p.json'' \<mapsto>
                  \<lparr>file_fields = [''transaction_id'', ''coupon''],
                   file_records = [Good [(''transaction_id'', ''t1''), (''coupon'', ''X'')]]\<rparr>],
      datasets = {''proj.gigmart''},
      tables = [''proj.gigmart.stg_pos_transactions'' \<mapsto>
                  \<lparr>table_schema = map fst (the (json_schema ''stg_pos_transactions'')),
                   table_rows = []\<rparr>]\<rparr>"

text \<open>
  A CRM file with a column \<^verbatim>\<open>phone\<close> that the table does not have, and without the
  column \<^verbatim>\<open>name\<close> that the table has.
\<close>

definition widen_world :: world where
  "widen_world =
     \<lparr>local_dirs = Map.empty, local_files = Map.empty,
      bucket = [''gs://bkt/crm/a.csv'' \<mapsto>
                  \<lparr>file_fields = [''customer_id'', ''phone''],
                   file_records = [Good [(''customer_id'', ''c9''), (''phone'', ''555'')]]\<rparr>],
      datasets = {''proj.gigmart''},
      tables = [''proj.gigmart.stg_crm_customers'' \<mapsto>
                  \<lparr>table_schema = [''customer_id'', ''name''],
                   table_rows = [[(''customer_id'', ''c0''), (''name'', ''Al'')]]\<rparr>]\<rparr>"

text \<open>
  The same table, and a CRM file with the column \<^verbatim>\<open>phone\<close> and 101 malformed records,
  one more than the threshold.
\<close>

definition phone_flood_world :: world where
  "phone_flood_world =
     \<lparr>local_dirs = Map.empty, local_files = Map.empty,
      bucket = [''gs://bkt/crm/a.csv'' \<mapsto>
                  \<lparr>file_fields = [''customer_id'', ''phone''],
                   file_records = replicate 101 (Bad (malformed ''r''))\<rparr>],
      datasets = {''proj.gigmart''},
      tables = [''proj.gigmart.stg_crm_customers'' \<mapsto>
                  \<lparr>table_schema = [''customer_id'', ''name''],
                   table_rows = [[(''customer_id'', ''c0''), (''name'', ''Al'')]]\<rparr>]\<rparr>"

text \<open>A CRM folder with two CSV files and a text file, nothing uploaded or loaded yet.\<close>

definition crm_file :: "string \<Rightarrow> source_file" where
  "crm_file c = \<lparr>file_fields = [''customer_id''], file_records = [Good [(''customer_id'', c)]]\<rparr>"

definition crm_world :: world where
  "crm_world =
     \<lparr>local_dirs = [''/data/crm'' \<mapsto> [''a.csv'', ''notes.txt'', ''b.csv'']],
      local_files = [''/data/crm/a.csv'' \<mapsto> crm_file ''c1'',
                     ''/data/crm/notes.txt'' \<mapsto> crm_file ''c2'',
                     ''/data/crm/b.csv'' \<mapsto> crm_file ''c3''],
      bucket = Map.empty, datasets = {}, tables = Map.empty\<rparr>"

text \<open>The same services with the warehouse refusing every load job.\<close>

definition GCP_loads_down :: "world env" where
  "GCP_loads_down =
     GCP\<lparr>load_table_from_uri :=
           (\<lambda>uri table_id cfg w. (Inl (GoogleAPIError ''503 Service Unavailable''), w))\<rparr>"


section \<open>Properties of the quality gate\<close>

lemma run_test_returns: "\<exists>b. fst (run_test client test_name query expected_result) = Inr b"
  by (cases "run_test_try client test_name query expected_result")
     (auto simp: run_test_def split: prod.splits)

lemma then_do_fst: "fst m = Inr x \<Longrightarrow> fst (then_do m f) = fst (f x)"
  by (cases m) (auto simp: then_do_def split: prod.splits)

lemma main_check_data_quality_fst:
  "fst (main_check_data_quality PROJECT_ID client) =
     Inr (passes client ''Uniqueness Check (Fact Transactions)'' query_uniqueness
        \<and> passes client ''Referential Integrity (Customer FK)'' query_ref_integrity
        \<and> passes client ''Null Value Check (Critical Columns)'' query_nulls
        \<and> passes client ''SCD Logic Check (Time Travel)'' query_scd_logic)"
proof -
  obtain b1 where b1:
    "fst (run_test client ''Uniqueness Check (Fact Transactions)'' query_uniqueness (PyInt 0)) = Inr b1"
    using run_test_returns by blast
  obtain b2 where b2:
    "fst (run_test client ''Referential Integrity (Customer FK)'' query_ref_integrity (PyInt 0)) = Inr b2"
    using run_test_returns by blast
  obtain b3 where b3:
    "fst (run_test client ''Null Value Check (Critical Columns)'' query_nulls (PyInt 0)) = Inr b3"
    using run_test_returns by blast
  obtain b4 where b4:
    "fst (run_test client ''SCD Logic Check (Time Travel)'' query_scd_logic (PyInt 0)) = Inr b4"
    using run_test_returns by blast
  show ?thesis
    unfolding main_check_data_quality_def Let_def passes_def
    by (simp add: then_do_fst [OF b1] then_do_fst [OF b2] then_do_fst [OF b3]
          then_do_fst [OF b4] then_do_fst [of "(Inr (), l)" "()" for l] b1 b2 b3 b4)
qed

lemma run_test_raised:
  "run_test_try client test_name query expected_result = Inl e \<Longrightarrow>
   run_test client test_name query expected_result = (Inr False, [log_error test_name e])"
  by (simp add: run_test_def)

lemma run_test_count:
  "client query = Inr ((count # cells) # rows) \<Longrightarrow>
   run_test client test_name query expected_result =
     (if count = expected_result then (Inr True, [log_pass test_name])
      else (Inr False, [log_fail test_name expected_result count]))"
  by (simp add: run_test_def run_test_try_def getitem0_def)

lemma run_test_no_rows:
  "client query = Inr [] \<Longrightarrow>
   run_test client test_name query expected_result =
     (if PyInt 0 = expected_result then (Inr True, [log_pass test_name])
      else (Inr False, [log_fail test_name expected_result (PyInt 0)]))"
  by (simp add: run_test_def run_test_try_def)

lemma distinct_iff_count_le1: "distinct xs \<longleftrightarrow> (\<forall>x\<in>set xs. count_list xs x \<le> 1)"
proof (induction xs)
  case Nil
  then show ?case by simp
next
  case (Cons a xs)
  show ?case
  proof (cases "a \<in> set xs")
    case True
    then have "count_list xs a > 0" using count_list_0_iff [of xs a] by auto
    with True show ?thesis by auto
  next
    case False
    then have "count_list xs a = 0" by (simp add: count_list_0_iff)
    with False Cons.IH show ?thesis by auto
  qed
qed

lemma length_filter_count_list:
  "length (filter (\<lambda>y. f y = t) xs) = count_list (map f xs) t"
  by (induction xs) auto

lemma uniqueness_violations_empty:
  "filter (\<lambda>(t, c). c > 1) (group_by_transaction_id fs) = [] \<longleftrightarrow>
   distinct (map transaction_id fs)"
  unfolding group_by_transaction_id_def
  by (auto simp: filter_empty_conv length_filter_count_list distinct_iff_count_le1 not_less)

lemma sql_uniqueness_zero:
  "sql_uniqueness wh = [[PyInt 0]] \<longleftrightarrow> distinct (map transaction_id (fact_transactions wh))"
  unfolding sql_uniqueness_def count_star_def
  using uniqueness_violations_empty [of "fact_transactions wh"] by simp

lemma passes_bigquery:
  "execute wh q = count_star rs \<Longrightarrow> passes (bigquery wh) n q \<longleftrightarrow> rs = []"
  by (simp add: passes_def bigquery_def count_star_def
        run_test_count [of _ _ "PyInt (int (length rs))" "[]" "[]"])

lemma passes_uniqueness:
  "passes (bigquery wh) n query_uniqueness \<longleftrightarrow> distinct (map transaction_id (fact_transactions wh))"
  using passes_bigquery [of wh query_uniqueness
      "filter (\<lambda>(t, c). c > 1) (group_by_transaction_id (fact_transactions wh))" n]
    uniqueness_violations_empty [of "fact_transactions wh"]
  by (simp add: execute_def sql_uniqueness_def)

lemma scenario_D_counts:
  "execute scenario_D query_uniqueness = [[PyInt 0]]"
  "execute scenario_D query_ref_integrity = [[PyInt 1]]"
  "execute scenario_D query_nulls = [[PyInt 0]]"
  "execute scenario_D query_scd_logic = [[PyInt 0]]"
  by (simp_all add: execute_def sql_uniqueness_def sql_ref_integrity_def sql_nulls_def
        sql_scd_logic_def count_star_def group_by_transaction_id_def left_join_def
        scenario_D_def)

lemma run_test_scenario_D:
  "execute scenario_D q = [[c]] \<Longrightarrow>
   run_test (bigquery scenario_D) n q (PyInt 0) =
     (if c = PyInt 0 then (Inr True, [log_pass n]) else (Inr False, [log_fail n (PyInt 0) c]))"
  by (simp add: run_test_count [of _ _ c "[]" "[]"] bigquery_def)


section \<open>Properties of programs\<close>

lemma bind_io_Inr:
  "m w = (Inr x, l, w') \<Longrightarrow>
   bind_io m f w = (fst (f x w'), l @ fst (snd (f x w')), snd (snd (f x w')))"
  by (simp add: bind_io_def split: prod.splits)

lemma bind_io_Inl: "m w = (Inl e, l, w') \<Longrightarrow> bind_io m f w = (Inl e, l, w')"
  by (simp add: bind_io_def)

lemma bind_io_return: "bind_io (return x) f = f x"
  by (rule ext) (simp add: bind_io_def return_def split: prod.splits)

lemma bind_io_assoc: "bind_io (bind_io m f) g = bind_io m (\<lambda>x. bind_io (f x) g)"
  by (rule ext) (auto simp: bind_io_def split: prod.splits sum.splits)

lemma for_each_append:
  "for_each (xs @ ys) body = bind_io (for_each xs body) (\<lambda>_. for_each ys body)"
  by (induction xs) (simp_all add: bind_io_return bind_io_assoc)

lemma for_each_logging: "for_each xs (\<lambda>x. logging (g x)) w = (Inr (), map g xs, w)"
  by (induction xs) (simp_all add: return_def bind_io_def logging_def)

lemma never_raises_return: "never_raises (return x)"
  by (simp add: never_raises_def return_def)

lemma never_raises_logging: "never_raises (logging r)"
  by (simp add: never_raises_def logging_def)

lemma never_raises_bind:
  assumes "never_raises m" and "\<And>x. never_raises (f x)"
  shows "never_raises (bind_io m f)"
  unfolding never_raises_def
proof
  fix w
  obtain x l w' where m: "m w = (Inr x, l, w')"
    using assms(1) unfolding never_raises_def by blast
  obtain y l' w'' where f: "f x w' = (Inr y, l', w'')"
    using assms(2) unfolding never_raises_def by blast
  show "\<exists>x l w'. bind_io m f w = (Inr x, l, w')"
    using m f by (simp add: bind_io_def)
qed

lemma never_raises_try_except:
  assumes "\<And>e. never_raises (h e)"
  shows "never_raises (try_except m h)"
  unfolding never_raises_def
proof
  fix w
  obtain r l w' where m: "m w = (r, l, w')"
    by (cases "m w") auto
  show "\<exists>x l w'. try_except m h w = (Inr x, l, w')"
  proof (cases r)
    case (Inl e)
    obtain y l' w'' where "h e w' = (Inr y, l', w'')"
      using assms unfolding never_raises_def by blast
    with m Inl show ?thesis by (simp add: try_except_def)
  next
    case (Inr x)
    with m show ?thesis by (simp add: try_except_def)
  qed
qed

lemma never_raises_for_each:
  assumes "\<And>x. never_raises (body x)"
  shows "never_raises (for_each xs body)"
  by (induction xs) (simp_all add: never_raises_return never_raises_bind assms)

lemma never_raises_upload_to_gcs: "never_raises (upload_to_gcs env path blob)"
  unfolding upload_to_gcs_def
  by (intro never_raises_try_except never_raises_bind never_raises_logging never_raises_return)

lemma never_raises_load_csv_to_bq: "never_raises (load_csv_to_bq env gcs_uri table_name)"
  unfolding load_csv_to_bq_def Let_def
  by (intro never_raises_try_except never_raises_logging)

lemma never_raises_load_json_to_bq: "never_raises (load_json_to_bq env gcs_uri table_name)"
  unfolding load_json_to_bq_def Let_def
  by (intro never_raises_try_except never_raises_logging)

lemma never_raises_run_loader: "never_raises (run_loader loader_func env gcs_uri table_name)"
  by (cases loader_func)
     (simp_all add: run_loader_def never_raises_load_csv_to_bq never_raises_load_json_to_bq)

lemma never_raises_ingest_file:
  "never_raises (ingest_file env source_folder table_name loader_func folder_path filename)"
  unfolding ingest_file_def Let_def
  by (intro never_raises_bind never_raises_upload_to_gcs)
     (auto split: option.splits
        intro!: never_raises_bind never_raises_return never_raises_logging never_raises_run_loader)

lemma never_raises_ingest_source:
  assumes "\<And>p w. path_exists env p w \<Longrightarrow> \<exists>names. listdir env p w = Inr names"
  shows "never_raises (ingest_source env entry)"
  unfolding never_raises_def
proof
  fix w
  obtain source_folder table_name loader_func where entry:
    "entry = (source_folder, table_name, loader_func)"
    by (cases entry) auto
  let ?p = "path_join (base_dir env) source_folder"
  show "\<exists>x l w'. ingest_source env entry w = (Inr x, l, w')"
  proof (cases "path_exists env ?p w")
    case False
    then show ?thesis
      by (simp add: ingest_source_def entry logging_def Let_def)
  next
    case True
    then obtain names where names: "listdir env ?p w = Inr names"
      using assms by blast
    have "never_raises (for_each names (ingest_file env source_folder table_name loader_func ?p))"
      by (rule never_raises_for_each) (rule never_raises_ingest_file)
    then obtain x l w' where
      "for_each names (ingest_file env source_folder table_name loader_func ?p) w = (Inr x, l, w')"
      unfolding never_raises_def by blast
    with True names show ?thesis
      by (simp add: ingest_source_def entry Let_def bind_io_def query_world_def)
  qed
qed


section \<open>Properties of the loaders\<close>

lemma logging_apply: "logging r w = (Inr (), [r], w)"
  by (simp add: logging_def)

lemma load_try_completes:
  assumes "load_table_from_uri env gcs_uri table_id cfg w = (Inr job, w1)"
    and "result job = None"
    and "get_table env table_id w1 = Inr t"
  shows "load_try env gcs_uri table_name table_id cfg w =
           (Inr (), completed_log table_name table_id (errors job) t, w1)"
  using assms
  by (simp add: load_try_def bind_io_def call_def query_world_def raise_if_def logging_apply
        return_def for_each_logging completed_log_def)

lemma load_try_submit_raises:
  assumes "load_table_from_uri env gcs_uri table_id cfg w = (Inl e, w1)"
  shows "load_try env gcs_uri table_name table_id cfg w = (Inl e, [], w1)"
  using assms by (simp add: load_try_def bind_io_def call_def)

lemma load_try_result_raises:
  assumes "load_table_from_uri env gcs_uri table_id cfg w = (Inr job, w1)"
    and "result job = Some e"
  shows "load_try env gcs_uri table_name table_id cfg w = (Inl e, [], w1)"
  using assms
  by (simp add: load_try_def bind_io_def call_def query_world_def raise_if_def)

lemma load_try_get_table_raises:
  assumes "load_table_from_uri env gcs_uri table_id cfg w = (Inr job, w1)"
    and "result job = None"
    and "get_table env table_id w1 = Inl e"
  shows "load_try env gcs_uri table_name table_id cfg w = (Inl e, [], w1)"
  using assms
  by (simp add: load_try_def bind_io_def call_def query_world_def raise_if_def)

lemma run_loader_eq:
  "run_loader loader_func env gcs_uri table_name =
     try_except
       (load_try env gcs_uri table_name (table_id_of env table_name)
          (job_config_of loader_func table_name))
       (\<lambda>e. logging (log_failed_to_load table_name e))"
  by (cases loader_func)
     (simp_all add: run_loader_def load_csv_to_bq_def load_json_to_bq_def job_config_of_def
        table_id_of_def)

lemma run_loader_completed:
  assumes "load_try env gcs_uri table_name (table_id_of env table_name)
             (job_config_of loader_func table_name) w = (Inr (), l, w1)"
  shows "run_loader loader_func env gcs_uri table_name w = (Inr (), l, w1)"
  using assms by (simp add: run_loader_eq try_except_def)

lemma run_loader_failed:
  assumes "load_try env gcs_uri table_name (table_id_of env table_name)
             (job_config_of loader_func table_name) w = (Inl e, l, w1)"
  shows "run_loader loader_func env gcs_uri table_name w =
           (Inr (), l @ [log_failed_to_load table_name e], w1)"
  using assms by (simp add: run_loader_eq try_except_def logging_def)

text \<open>The job configurations built for the tables of \<^verbatim>\<open>ingestion_map\<close>.\<close>

lemma configured_cases:
  assumes "(source_folder, table_name, loader_func) \<in> set ingestion_map"
  shows "loader_func = load_csv \<or>
         (loader_func = load_json \<and>
          (table_name = ''stg_ecommerce_orders'' \<or> table_name = ''stg_pos_transactions''))"
  using assms by (auto simp: ingestion_map_def)

lemma configured_job_config:
  assumes "(source_folder, table_name, loader_func) \<in> set ingestion_map"
  shows "max_bad_records (job_config_of loader_func table_name) = 100"
    and "write_disposition (job_config_of loader_func table_name) = WRITE_APPEND"
    and "ALLOW_FIELD_ADDITION \<in> set (schema_update_options (job_config_of loader_func table_name))"
    and "ignore_unknown_values (job_config_of loader_func table_name)"
  using configured_cases [OF assms]
  by (auto simp: job_config_of_def csv_job_config_def json_job_config_def json_schema_def)

text \<open>The load job under such a configuration: it fails only beyond the threshold.\<close>

lemma bq_load_configured:
  assumes "write_disposition cfg = WRITE_APPEND"
    and "ALLOW_FIELD_ADDITION \<in> set (schema_update_options cfg)"
  shows "bq_load cfg file existing =
     (let cols = load_columns cfg file (schema_of existing);
          bad = skipped cfg cols (file_records file)
      in if length bad > max_bad_records cfg
         then (Inl (GoogleAPIError ''Too many errors encountered''), bad)
         else (Inr \<lparr>table_schema =
                      schema_of existing @ filter (\<lambda>c. c \<notin> set (schema_of existing)) cols,
                    table_rows = rows_of existing @ staged cfg cols (file_records file)\<rparr>, bad))"
  using assms by (simp add: bq_load_def Let_def)

lemma gcp_load_try_completes:
  assumes "bucket w gcs_uri = Some file"
    and "bq_load cfg file (tables w table_id) = (Inr t, errs)"
  shows "load_try (gcp project bucket_n dir) gcs_uri table_name table_id cfg w =
           (Inr (), completed_log table_name table_id errs t,
            w\<lparr>tables := (tables w)(table_id \<mapsto> t)\<rparr>)"
  by (rule load_try_completes [where job = "\<lparr>result = None, errors = errs\<rparr>", simplified])
     (simp_all add: gcp_def assms)

lemma gcp_load_try_fails:
  assumes "bucket w gcs_uri = Some file"
    and "bq_load cfg file (tables w table_id) = (Inl e, errs)"
  shows "load_try (gcp project bucket_n dir) gcs_uri table_name table_id cfg w = (Inl e, [], w)"
  by (rule load_try_result_raises [where job = "\<lparr>result = Some e, errors = errs\<rparr>"])
     (simp_all add: gcp_def assms)


lemma log_bad_record_inj: "log_bad_record e = log_bad_record e' \<longleftrightarrow> e = e'"
  by (cases e; cases e') (auto simp: log_bad_record_def error_dict_def)

lemma log_bad_record_in_completed_log:
  "log_bad_record e \<in> set (completed_log table_name table_id errs t) \<longleftrightarrow>
   e \<in> set (take 5 errs)"
  by (auto simp: completed_log_def log_bad_record_inj image_iff)
     (auto simp: log_bad_record_def log_loaded_def log_bad_count_def log_zero_rows_def)

text \<open>A loader of \<^verbatim>\<open>ingestion_map\<close> on an uploaded file, with every service up.\<close>

lemma gcp_run_loader_within_threshold:
  assumes "(source_folder, table_name, loader_func) \<in> set ingestion_map"
    and "bucket w gcs_uri = Some file"
    and "cfg = job_config_of loader_func table_name"
    and "table_id = table_id_of (gcp project bucket_n dir) table_name"
    and "cols = load_columns cfg file (schema_of (tables w table_id))"
    and "length (skipped cfg cols (file_records file)) \<le> 100"
    and "t = \<lparr>table_schema = schema_of (tables w table_id)
                  @ filter (\<lambda>c. c \<notin> set (schema_of (tables w table_id))) cols,
               table_rows = rows_of (tables w table_id) @ staged cfg cols (file_records file)\<rparr>"
  shows "run_loader loader_func (gcp project bucket_n dir) gcs_uri table_name w =
           (Inr (), completed_log table_name table_id (skipped cfg cols (file_records file)) t,
            w\<lparr>tables := (tables w)(table_id \<mapsto> t)\<rparr>)"
proof -
  have "bq_load cfg file (tables w table_id) = (Inr t, skipped cfg cols (file_records file))"
    using assms configured_job_config [OF assms(1)]
    by (simp add: bq_load_configured Let_def)
  then show ?thesis
    using assms(2,3,4)
    by (intro run_loader_completed) (simp add: gcp_load_try_completes)
qed

lemma gcp_run_loader_beyond_threshold:
  assumes "(source_folder, table_name, loader_func) \<in> set ingestion_map"
    and "bucket w gcs_uri = Some file"
    and "cfg = job_config_of loader_func table_name"
    and "table_id = table_id_of (gcp project bucket_n dir) table_name"
    and "cols = load_columns cfg file (schema_of (tables w table_id))"
    and "100 < length (skipped cfg cols (file_records file))"
  shows "run_loader loader_func (gcp project bucket_n dir) gcs_uri table_name w =
           (Inr (), [log_failed_to_load table_name (GoogleAPIError ''Too many errors encountered'')],
            w)"
proof -
  have "bq_load cfg file (tables w table_id) =
          (Inl (GoogleAPIError ''Too many errors encountered''),
           skipped cfg cols (file_records file))"
    using assms configured_job_config [OF assms(1)]
    by (simp add: bq_load_configured Let_def)
  then have "load_try (gcp project bucket_n dir) gcs_uri table_name table_id cfg w =
          (Inl (GoogleAPIError ''Too many errors encountered''), [], w)"
    using assms(2) by (simp add: gcp_load_try_fails)
  then show ?thesis
    using assms(3,4) run_loader_failed [of "gcp project bucket_n dir" gcs_uri table_name loader_func w]
    by simp
qed


section \<open>The loops of \<^verbatim>\<open>main\<close> with every service up\<close>

lemma keeps_refl: "keeps w w"
  by (simp add: keeps_def)

lemma keeps_trans: "keeps w w' \<Longrightarrow> keeps w' w'' \<Longrightarrow> keeps w w''"
  unfolding keeps_def by (metis subset_trans)

lemma steady_return: "steady (return x)"
  by (simp add: steady_def return_def keeps_refl)

lemma steady_logging: "steady (logging r)"
  by (simp add: steady_def logging_def keeps_refl)

lemma steady_bind:
  assumes "steady m" and "\<And>x. steady (f x)"
  shows "steady (bind_io m f)"
  unfolding steady_def
proof
  fix w
  obtain x l w' where m: "m w = (Inr x, l, w')" "keeps w w'"
    using assms(1) unfolding steady_def by blast
  obtain y l' w'' where f: "f x w' = (Inr y, l', w'')" "keeps w' w''"
    using assms(2) unfolding steady_def by blast
  show "\<exists>x l w'. bind_io m f w = (Inr x, l, w') \<and> keeps w w'"
    using m f by (auto simp: bind_io_def intro: keeps_trans)
qed

lemma steady_for_each:
  assumes "\<And>x. steady (body x)"
  shows "steady (for_each xs body)"
  by (induction xs) (simp_all add: steady_return steady_bind assms)

lemma gcp_upload_ok:
  assumes "local_files w path = Some file"
  shows "upload_to_gcs (gcp project bucket_n dir) path blob w =
           (Inr (Some (''gs://'' @ bucket_n @ ''/'' @ blob)),
            [(INFO, [Lit ''File '', Lit path, Lit '' uploaded to '', Lit blob, Lit ''.''])],
            w\<lparr>bucket := (bucket w)(''gs://'' @ bucket_n @ ''/'' @ blob \<mapsto> file)\<rparr>)"
  using assms
  by (simp add: upload_to_gcs_def gcp_def try_except_def bind_io_def call_def raise_if_def
        logging_def return_def)

lemma gcp_upload_missing:
  assumes "local_files w path = None"
  shows "upload_to_gcs (gcp project bucket_n dir) path blob w =
           (Inr None,
            [(ERROR, [Lit ''Failed to upload '', Lit path, Lit '': '',
                      Fmt (PyExc (OSError ''No such file or directory''))])],
            w)"
  using assms
  by (simp add: upload_to_gcs_def gcp_def try_except_def bind_io_def call_def raise_if_def
        logging_def return_def)

lemma steady_upload_to_gcs: "steady (upload_to_gcs (gcp project bucket_n dir) path blob)"
  unfolding steady_def
proof
  fix w
  show "\<exists>x l w'. upload_to_gcs (gcp project bucket_n dir) path blob w = (Inr x, l, w')
          \<and> keeps w w'"
  proof (cases "local_files w path")
    case None
    then show ?thesis by (simp add: gcp_upload_missing keeps_refl)
  next
    case (Some obj)
    then show ?thesis by (simp add: gcp_upload_ok keeps_def)
  qed
qed

lemma steady_create_dataset_if_not_exists:
  "steady (create_dataset_if_not_exists (gcp project bucket_n dir))"
  unfolding steady_def
  by (auto simp: create_dataset_if_not_exists_def gcp_def try_except_def bind_io_def call_def
        query_world_def raise_if_def logging_def keeps_def Let_def)

lemma gcp_load_try_no_object:
  assumes "bucket w gcs_uri = None"
  shows "load_try (gcp project bucket_n dir) gcs_uri table_name table_id cfg w =
           (Inl (GoogleAPIError ''Not found: URI''), [], w)"
  by (rule load_try_result_raises
        [where job = "\<lparr>result = Some (GoogleAPIError ''Not found: URI''), errors = []\<rparr>"])
     (simp_all add: gcp_def assms)

lemma bq_load_append:
  assumes "write_disposition cfg = WRITE_APPEND"
    and "bq_load cfg file existing = (Inr t, errs)"
  shows "table_rows t =
           rows_of existing
           @ staged cfg (load_columns cfg file (schema_of existing)) (file_records file)"
  using assms by (auto simp: bq_load_def Let_def split: if_splits)

lemma write_disposition_job_config_of:
  "write_disposition (job_config_of loader_func table_name) = WRITE_APPEND"
  by (cases loader_func) (simp_all add: job_config_of_def csv_job_config_def json_job_config_def)

lemma steady_run_loader:
  "steady (run_loader loader_func (gcp project bucket_n dir) gcs_uri table_name)"
  unfolding steady_def
proof
  fix w
  let ?env = "gcp project bucket_n dir"
  let ?cfg = "job_config_of loader_func table_name"
  let ?tid = "table_id_of ?env table_name"
  show "\<exists>x l w'. run_loader loader_func ?env gcs_uri table_name w = (Inr x, l, w') \<and> keeps w w'"
  proof (cases "bucket w gcs_uri")
    case None
    have "load_try ?env gcs_uri table_name ?tid ?cfg w =
            (Inl (GoogleAPIError ''Not found: URI''), [], w)"
      using None by (rule gcp_load_try_no_object)
    then show ?thesis
      by (simp add: run_loader_failed keeps_refl)
  next
    case (Some obj)
    obtain r errs where r: "bq_load ?cfg obj (tables w ?tid) = (r, errs)"
      by (cases "bq_load ?cfg obj (tables w ?tid)") auto
    show ?thesis
    proof (cases r)
      case (Inl e)
      have "load_try ?env gcs_uri table_name ?tid ?cfg w = (Inl e, [], w)"
        using Some r Inl by (simp add: gcp_load_try_fails)
      then show ?thesis
        by (simp add: run_loader_failed keeps_refl)
    next
      case (Inr t)
      have rows: "table_rows t = rows_of (tables w ?tid)
           @ staged ?cfg (load_columns ?cfg obj (schema_of (tables w ?tid))) (file_records obj)"
        using bq_load_append [OF write_disposition_job_config_of] r Inr by simp
      have k: "keeps w (w\<lparr>tables := (tables w)(?tid \<mapsto> t)\<rparr>)"
        using rows by (auto simp: keeps_def rows_of_def)
      have "load_try ?env gcs_uri table_name ?tid ?cfg w =
              (Inr (), completed_log table_name ?tid errs t,
               w\<lparr>tables := (tables w)(?tid \<mapsto> t)\<rparr>)"
        using Some r Inr by (simp add: gcp_load_try_completes)
      then show ?thesis
        using k by (simp add: run_loader_completed)
    qed
  qed
qed

lemma steady_ingest_file:
  "steady (ingest_file (gcp project bucket_n dir) source_folder table_name loader_func
             folder_path filename)"
  unfolding ingest_file_def Let_def
  by (intro steady_bind steady_upload_to_gcs)
     (auto split: option.splits
        intro!: steady_bind steady_return steady_logging steady_run_loader)

lemma gcp_ingest_source_missing:
  assumes "local_dirs w (path_join dir source_folder) = None"
  shows "ingest_source (gcp project bucket_n dir) (source_folder, table_name, loader_func) w =
           (Inr (), [(WARNING, [Lit ''Directory not found: '',
                                Lit (path_join dir source_folder)])], w)"
  using assms by (simp add: ingest_source_def gcp_def logging_def Let_def)

lemma gcp_ingest_source_listed:
  assumes "local_dirs w (path_join dir source_folder) = Some filenames"
  shows "ingest_source (gcp project bucket_n dir) (source_folder, table_name, loader_func) w =
           for_each filenames
             (ingest_file (gcp project bucket_n dir) source_folder table_name loader_func
                (path_join dir source_folder)) w"
proof -
  have "ingest_source (gcp project bucket_n dir) (source_folder, table_name, loader_func) w =
          bind_io (return filenames)
            (\<lambda>filenames. for_each filenames
               (ingest_file (gcp project bucket_n dir) source_folder table_name loader_func
                  (path_join dir source_folder))) w"
    using assms
    by (simp add: ingest_source_def Let_def bind_io_def query_world_def return_def)
       (simp add: gcp_def)
  then show ?thesis by (simp add: bind_io_return)
qed

lemma steady_ingest_source: "steady (ingest_source (gcp project bucket_n dir) entry)"
  unfolding steady_def
proof
  fix w
  obtain source_folder table_name loader_func where e:
    "entry = (source_folder, table_name, loader_func)"
    by (cases entry) auto
  show "\<exists>x l w'. ingest_source (gcp project bucket_n dir) entry w = (Inr x, l, w') \<and> keeps w w'"
  proof (cases "local_dirs w (path_join dir source_folder)")
    case None
    then show ?thesis by (simp add: e gcp_ingest_source_missing keeps_refl)
  next
    case (Some filenames)
    have "steady (for_each filenames
             (ingest_file (gcp project bucket_n dir) source_folder table_name loader_func
                (path_join dir source_folder)))"
      by (rule steady_for_each) (rule steady_ingest_file)
    then show ?thesis
      unfolding steady_def by (simp add: e gcp_ingest_source_listed [OF Some])
  qed
qed

text \<open>
  A loop whose body is steady, over a list that holds \<open>x\<close>: if the body at \<open>x\<close> takes a
  world satisfying \<open>P\<close> to one satisfying \<open>Q\<close>, and later worlds inherit \<open>P\<close> and \<open>Q\<close>, then
  the loop takes a world satisfying \<open>P\<close> to one satisfying \<open>Q\<close>.
\<close>

lemma for_each_reaches:
  assumes body: "\<And>y. steady (body y)"
    and x: "x \<in> set xs"
    and step: "\<And>w l w'. P w \<Longrightarrow> body x w = (Inr (), l, w') \<Longrightarrow> Q w'"
    and P: "\<And>w w'. P w \<Longrightarrow> keeps w w' \<Longrightarrow> P w'"
    and Q: "\<And>w w'. Q w \<Longrightarrow> keeps w w' \<Longrightarrow> Q w'"
    and w: "P w"
  shows "\<exists>l w'. for_each xs body w = (Inr (), l, w') \<and> Q w' \<and> keeps w w'"
proof -
  obtain ys zs where xs: "xs = ys @ x # zs"
    using x by (meson split_list)
  have "steady (for_each ys body)" using body by (rule steady_for_each)
  then obtain l1 w1 where 1: "for_each ys body w = (Inr (), l1, w1)" "keeps w w1"
    unfolding steady_def by (metis old.unit.exhaust)
  obtain l2 w2 where 2: "body x w1 = (Inr (), l2, w2)" "keeps w1 w2"
    using body [of x] unfolding steady_def by (metis old.unit.exhaust)
  have "steady (for_each zs body)" using body by (rule steady_for_each)
  then obtain l3 w3 where 3: "for_each zs body w2 = (Inr (), l3, w3)" "keeps w2 w3"
    unfolding steady_def by (metis old.unit.exhaust)
  have "Q w2" using step [OF P [OF w 1(2)] 2(1)] .
  then have "Q w3" using Q 3(2) by blast
  moreover have "keeps w w3" using 1(2) 2(2) 3(2) keeps_trans by blast
  moreover have "for_each xs body w = (Inr (), l1 @ l2 @ l3, w3)"
    using 1 2 3 by (simp add: xs for_each_append bind_io_def)
  ultimately show ?thesis by blast
qed


lemma configured_load_columns:
  assumes "(source_folder, table_name, loader_func) \<in> set ingestion_map"
  shows "load_columns (job_config_of loader_func table_name) file old =
         load_columns (job_config_of loader_func table_name) file []"
  using configured_cases [OF assms]
  by (auto simp: load_columns_def job_config_of_def csv_job_config_def json_job_config_def
        json_schema_def)

text \<open>
  Both loaders set \<^verbatim>\<open>ignore_unknown_values\<close>: the records a load job skips are the
  malformed ones, and a field outside the loaded columns never makes a record bad.
\<close>

lemma configured_skipped:
  assumes "(source_folder, table_name, loader_func) \<in> set ingestion_map"
  shows "skipped (job_config_of loader_func table_name) cols recs =
           concat (map (\<lambda>r. case r of Bad e \<Rightarrow> [e] | Good r \<Rightarrow> []) recs)"
proof -
  have "(\<lambda>r. case r of
            Bad e \<Rightarrow> [e]
          | Good r \<Rightarrow>
              if ignore_unknown_values (job_config_of loader_func table_name)
                 \<or> unknown_fields cols r = [] then []
              else [unknown_field_error (unknown_fields cols r)])
        = (\<lambda>r. case r of Bad e \<Rightarrow> [e] | Good r \<Rightarrow> [])"
    using configured_job_config(4) [OF assms]
    by (auto split: raw_record.splits)
  then show ?thesis by (simp add: skipped_def)
qed

lemma staged_row:
  assumes "row \<in> set (staged cfg cols recs)"
  shows "\<exists>r. Good r \<in> set recs \<and> row = filter (\<lambda>(k, v). k \<in> set cols) r"
  using assms by (auto simp: staged_def split: raw_record.splits if_splits)

lemma staged_null:
  assumes "\<forall>r. Good r \<in> set recs \<longrightarrow> c \<notin> fst ` set r"
    and "row \<in> set (staged cfg cols recs)"
  shows "map_of row c = None"
proof -
  obtain r where r: "Good r \<in> set recs" "row = filter (\<lambda>(k, v). k \<in> set cols) r"
    using staged_row [OF assms(2)] by blast
  then have "c \<notin> fst ` set row"
    using assms(1) by auto
  then show ?thesis by (simp add: map_of_eq_None_iff)
qed

lemma log_failed_not_in_completed_log:
  "log_failed_to_load table_name e \<notin> set (completed_log table_name' table_id errs t)"
  by (auto simp: completed_log_def log_failed_to_load_def log_loaded_def log_bad_count_def
        log_bad_record_def log_zero_rows_def)

text \<open>The step of the inner loop for a file that ends in \<^verbatim>\<open>.csv\<close> or \<^verbatim>\<open>.json\<close>.\<close>

lemma gcp_ingest_file_staged:
  assumes m: "(source_folder, table_name, loader_func) \<in> set ingestion_map"
    and suffix: "endswith filename ''.csv'' \<or> endswith filename ''.json''"
    and local: "local_files w (path_join folder_path filename) = Some file"
    and cfg: "cfg = job_config_of loader_func table_name"
    and cols: "cols = load_columns cfg file []"
    and bad: "length (skipped cfg cols (file_records file)) \<le> 100"
  shows "\<exists>l w'. ingest_file (gcp project bucket_n dir) source_folder table_name loader_func
                  folder_path filename w = (Inr (), l, w')
           \<and> set (staged cfg cols (file_records file))
               \<subseteq> set (rows_of (tables w' (table_id_of (gcp project bucket_n dir) table_name)))"
proof -
  let ?env = "gcp project bucket_n dir"
  let ?tid = "table_id_of ?env table_name"
  let ?uri = "''gs://'' @ bucket_n @ ''/'' @ source_folder @ ''/'' @ filename"
  let ?w1 = "w\<lparr>bucket := (bucket w)(?uri \<mapsto> file)\<rparr>"
  let ?t = "\<lparr>table_schema = schema_of (tables ?w1 ?tid)
                  @ filter (\<lambda>c. c \<notin> set (schema_of (tables ?w1 ?tid))) cols,
             table_rows = rows_of (tables ?w1 ?tid) @ staged cfg cols (file_records file)\<rparr>"
  have c1: "cols = load_columns cfg file (schema_of (tables ?w1 ?tid))"
    by (metis configured_load_columns [OF m] cfg cols)
  have o: "bucket ?w1 ?uri = Some file" by simp
  have eligible: "(endswith filename ''.csv'' \<or> endswith filename ''.json'') = True"
    using suffix by simp
  have load: "run_loader loader_func ?env ?uri table_name ?w1 =
           (Inr (), completed_log table_name ?tid (skipped cfg cols (file_records file)) ?t,
            ?w1\<lparr>tables := (tables ?w1)(?tid \<mapsto> ?t)\<rparr>)"
    by (rule gcp_run_loader_within_threshold [OF m o cfg refl c1 bad refl])
  have res: "ingest_file ?env source_folder table_name loader_func folder_path filename w =
          (Inr (),
           [(INFO, [Lit ''File '', Lit (path_join folder_path filename), Lit '' uploaded to '',
                    Lit (source_folder @ ''/'' @ filename), Lit ''.'']),
            log_triggering table_name]
           @ completed_log table_name ?tid (skipped cfg cols (file_records file)) ?t,
           ?w1\<lparr>tables := (tables ?w1)(?tid \<mapsto> ?t)\<rparr>)"
    unfolding ingest_file_def Let_def
    using load
    by (simp add: bind_io_def gcp_upload_ok [OF local] eligible logging_apply)
  have "set (staged cfg cols (file_records file))
          \<subseteq> set (rows_of (tables (?w1\<lparr>tables := (tables ?w1)(?tid \<mapsto> ?t)\<rparr>) ?tid))"
    by (simp add: rows_of_def)
  with res show ?thesis by blast
qed

text \<open>The step of the inner loop for any other file: it is uploaded and no table changes.\<close>

lemma gcp_ingest_file_other:
  assumes "\<not> endswith filename ''.csv''" and "\<not> endswith filename ''.json''"
  shows "tables (snd (snd (ingest_file (gcp project bucket_n dir) source_folder table_name
                             loader_func folder_path filename w))) = tables w"
proof (cases "local_files w (path_join folder_path filename)")
  case None
  then show ?thesis
    by (simp add: ingest_file_def Let_def bind_io_def gcp_upload_missing return_def)
next
  case (Some obj)
  then show ?thesis
    using assms
    by (simp add: ingest_file_def Let_def bind_io_def gcp_upload_ok return_def)
qed

lemma gcp_main_stages:
  assumes m: "(source_folder, table_name, loader_func) \<in> set ingestion_map"
    and dir: "local_dirs w (path_join dir source_folder) = Some filenames"
    and f: "filename \<in> set filenames"
    and suffix: "endswith filename ''.csv'' \<or> endswith filename ''.json''"
    and local: "local_files w (path_join (path_join dir source_folder) filename) = Some file"
    and cfg: "cfg = job_config_of loader_func table_name"
    and cols: "cols = load_columns cfg file []"
    and bad: "length (skipped cfg cols (file_records file)) \<le> 100"
  shows "\<exists>l w'. main_ingest_gcp (gcp project bucket_n dir) w = (Inr (), l, w')
           \<and> set (staged cfg cols (file_records file))
               \<subseteq> set (rows_of (tables w' (table_id_of (gcp project bucket_n dir) table_name)))"
proof -
  let ?env = "gcp project bucket_n dir"
  let ?tid = "table_id_of ?env table_name"
  let ?fp = "path_join dir source_folder"
  let ?Q = "\<lambda>w. set (staged cfg cols (file_records file)) \<subseteq> set (rows_of (tables w ?tid))"
  let ?Pin = "\<lambda>w. local_files w (path_join ?fp filename) = Some file"
  let ?Pout = "\<lambda>w. local_dirs w ?fp = Some filenames \<and> ?Pin w"
  have Q: "?Q w1 \<Longrightarrow> keeps w1 w2 \<Longrightarrow> ?Q w2" for w1 w2
    unfolding keeps_def by blast
  have Pin: "?Pin w1 \<Longrightarrow> keeps w1 w2 \<Longrightarrow> ?Pin w2" for w1 w2
    unfolding keeps_def by simp
  have Pout: "?Pout w1 \<Longrightarrow> keeps w1 w2 \<Longrightarrow> ?Pout w2" for w1 w2
    unfolding keeps_def by simp
  have inner: "?Q w2"
    if pin: "?Pin w1"
      and run: "ingest_file ?env source_folder table_name loader_func ?fp filename w1
                  = (Inr (), l, w2)"
    for w1 l w2
  proof -
    obtain l' w' where
      "ingest_file ?env source_folder table_name loader_func ?fp filename w1 = (Inr (), l', w')"
      "?Q w'"
      using gcp_ingest_file_staged [OF m suffix pin cfg cols bad,
          where project = project and bucket_n = bucket_n and dir = dir]
      by blast
    with run show ?thesis by simp
  qed
  have files: "\<exists>l w'. for_each filenames
                    (ingest_file ?env source_folder table_name loader_func ?fp) w1
                  = (Inr (), l, w') \<and> ?Q w' \<and> keeps w1 w'"
    if "?Pin w1" for w1
  proof (rule for_each_reaches [where P = ?Pin and x = filename])
    show "steady (ingest_file ?env source_folder table_name loader_func ?fp y)" for y
      by (rule steady_ingest_file)
    show "filename \<in> set filenames" by (rule f)
    show "?Q w''" if "?Pin w'"
      "ingest_file ?env source_folder table_name loader_func ?fp filename w' = (Inr (), l, w'')"
      for w' l w''
      using that by (rule inner)
    show "?Pin w''" if "?Pin w'" "keeps w' w''" for w' w''
      using that by (rule Pin)
    show "?Q w''" if "?Q w'" "keeps w' w''" for w' w''
      using that by (rule Q)
    show "?Pin w1" by (rule that)
  qed
  have outer: "?Q w2"
    if p: "?Pout w1"
      and run: "ingest_source ?env (source_folder, table_name, loader_func) w1 = (Inr (), l, w2)"
    for w1 l w2
  proof -
    obtain l' w' where
      "for_each filenames (ingest_file ?env source_folder table_name loader_func ?fp) w1
         = (Inr (), l', w')" "?Q w'"
      using files p by blast
    moreover have "ingest_source ?env (source_folder, table_name, loader_func) w1 =
        for_each filenames (ingest_file ?env source_folder table_name loader_func ?fp) w1"
      using p by (simp add: gcp_ingest_source_listed)
    ultimately show ?thesis using run by simp
  qed
  obtain l0 w0 where 0: "create_dataset_if_not_exists ?env w = (Inr (), l0, w0)" "keeps w w0"
    using steady_create_dataset_if_not_exists [of project bucket_n dir]
    unfolding steady_def by (metis old.unit.exhaust)
  have "\<exists>l w'. for_each ingestion_map (ingest_source ?env) w0 = (Inr (), l, w')
                 \<and> ?Q w' \<and> keeps w0 w'"
  proof (rule for_each_reaches
      [where P = ?Pout and x = "(source_folder, table_name, loader_func)"])
    show "steady (ingest_source ?env y)" for y
      by (rule steady_ingest_source)
    show "(source_folder, table_name, loader_func) \<in> set ingestion_map" by (rule m)
    show "?Q w''" if "?Pout w'"
      "ingest_source ?env (source_folder, table_name, loader_func) w' = (Inr (), l, w'')"
      for w' l w''
      using that by (rule outer)
    show "?Pout w''" if "?Pout w'" "keeps w' w''" for w' w''
      using that by (rule Pout)
    show "?Q w''" if "?Q w'" "keeps w' w''" for w' w''
      using that by (rule Q)
    show "?Pout w0" using Pout [OF _ 0(2)] dir local by simp
  qed
  then obtain l1 w1 where 1: "for_each ingestion_map (ingest_source ?env) w0 = (Inr (), l1, w1)"
      "?Q w1"
    by blast
  have "main_ingest_gcp ?env w =
          (Inr (), (INFO, [Lit ''Looking for data in: '', Lit (base_dir ?env)]) # l0 @ l1, w1)"
    using 0 1 by (simp add: main_ingest_gcp_def bind_io_def logging_apply)
  with 1(2) show ?thesis by blast
qed


section \<open>The uploads of \<^verbatim>\<open>main\<close> with every service up\<close>

text \<open>A property that every step of a loop preserves holds after the loop.\<close>

lemma for_each_preserves:
  assumes inv: "\<And>y w r l w'. I w \<Longrightarrow> body y w = (r, l, w') \<Longrightarrow> I w'"
    and "I w" and "for_each xs body w = (r, l, w')"
  shows "I w'"
  using assms(2,3)
proof (induction xs arbitrary: w r l w')
  case Nil
  then show ?case by (simp add: return_def)
next
  case (Cons y ys)
  obtain r1 l1 w1 where 1: "body y w = (r1, l1, w1)"
    by (cases "body y w") auto
  have I1: "I w1" using inv [OF Cons.prems(1) 1] .
  show ?case
  proof (cases r1)
    case (Inl e)
    then show ?thesis using Cons.prems(2) 1 I1 by (simp add: bind_io_def)
  next
    case (Inr u)
    obtain r2 l2 w2 where 2: "for_each ys body w1 = (r2, l2, w2)"
      by (cases "for_each ys body w1") auto
    have "w' = w2" using Cons.prems(2) 1 2 Inr by (simp add: bind_io_def)
    then show ?thesis using Cons.IH [OF I1 2] by simp
  qed
qed

text \<open>
  A loop over a list that holds \<open>x\<close>, when it returns: if every step preserves \<open>I\<close>, the
  step at \<open>x\<close> establishes \<open>Q\<close> and every step preserves \<open>Q\<close> under \<open>I\<close>, then the loop
  takes a world satisfying \<open>I\<close> to one satisfying \<open>Q\<close>.
\<close>

lemma for_each_establishes:
  assumes inv: "\<And>y w r l w'. I w \<Longrightarrow> body y w = (r, l, w') \<Longrightarrow> I w'"
    and invQ: "\<And>y w r l w'. I w \<Longrightarrow> Q w \<Longrightarrow> body y w = (r, l, w') \<Longrightarrow> Q w'"
    and est: "\<And>w r l w'. I w \<Longrightarrow> body x w = (r, l, w') \<Longrightarrow> Q w'"
    and x: "x \<in> set xs"
    and w: "I w"
    and run: "for_each xs body w = (Inr u, l, w')"
  shows "Q w'"
proof -
  obtain ys zs where xs: "xs = ys @ x # zs"
    using x by (meson split_list)
  obtain r1 l1 w1 where 1: "for_each ys body w = (r1, l1, w1)"
    by (cases "for_each ys body w") auto
  obtain r2 l2 w2 where 2: "body x w1 = (r2, l2, w2)"
    by (cases "body x w1") auto
  obtain r3 l3 w3 where 3: "for_each zs body w2 = (r3, l3, w3)"
    by (cases "for_each zs body w2") auto
  have I1: "I w1" using for_each_preserves [of I body, OF inv w 1] .
  have I2: "I w2" using inv [OF I1 2] .
  have Q2: "Q w2" using est [OF I1 2] .
  have "I w3 \<and> Q w3"
    by (rule for_each_preserves [of "\<lambda>w. I w \<and> Q w" body, OF _ _ 3])
       (use inv invQ I2 Q2 in blast)+
  moreover have "w' = w3"
    using run 1 2 3 unfolding xs for_each_append
    by (cases r1; cases r2) (simp_all add: bind_io_def)
  ultimately show ?thesis by simp
qed

text \<open>The loaders leave the bucket as it is; the step of the inner loop adds the file.\<close>

lemma gcp_run_loader_bucket:
  "bucket (snd (snd (run_loader loader_func (gcp project bucket_n dir) gcs_uri table_name w)))
     = bucket w"
proof -
  let ?env = "gcp project bucket_n dir"
  let ?cfg = "job_config_of loader_func table_name"
  let ?tid = "table_id_of ?env table_name"
  show ?thesis
  proof (cases "bucket w gcs_uri")
    case None
    have "load_try ?env gcs_uri table_name ?tid ?cfg w =
            (Inl (GoogleAPIError ''Not found: URI''), [], w)"
      using None by (rule gcp_load_try_no_object)
    then show ?thesis
      by (simp add: run_loader_failed)
  next
    case (Some obj)
    obtain r errs where r: "bq_load ?cfg obj (tables w ?tid) = (r, errs)"
      by (cases "bq_load ?cfg obj (tables w ?tid)") auto
    show ?thesis
    proof (cases r)
      case (Inl e)
      have "load_try ?env gcs_uri table_name ?tid ?cfg w = (Inl e, [], w)"
        using Some r Inl by (simp add: gcp_load_try_fails)
      then show ?thesis
        by (simp add: run_loader_failed)
    next
      case (Inr t)
      have "load_try ?env gcs_uri table_name ?tid ?cfg w =
              (Inr (), completed_log table_name ?tid errs t,
               w\<lparr>tables := (tables w)(?tid \<mapsto> t)\<rparr>)"
        using Some r Inr by (simp add: gcp_load_try_completes)
      then show ?thesis
        by (simp add: run_loader_completed)
    qed
  qed
qed

lemma gcp_ingest_file_world:
  "bucket (snd (snd (ingest_file (gcp project bucket_n dir) source_folder table_name loader_func
                       folder_path filename w))) =
     (case local_files w (path_join folder_path filename) of
        None \<Rightarrow> bucket w
      | Some obj \<Rightarrow>
          (bucket w)(''gs://'' @ bucket_n @ ''/'' @ source_folder @ ''/'' @ filename \<mapsto> obj))"
proof (cases "local_files w (path_join folder_path filename)")
  case None
  then show ?thesis
    by (simp add: ingest_file_def Let_def bind_io_def gcp_upload_missing return_def)
next
  case (Some obj)
  let ?uri = "''gs://'' @ bucket_n @ ''/'' @ source_folder @ ''/'' @ filename"
  let ?w1 = "w\<lparr>bucket := (bucket w)(?uri \<mapsto> obj)\<rparr>"
  obtain r l w2 where run:
    "run_loader loader_func (gcp project bucket_n dir) ?uri table_name ?w1 = (r, l, w2)"
    by (cases "run_loader loader_func (gcp project bucket_n dir) ?uri table_name ?w1") auto
  have "bucket w2 = bucket ?w1"
    using gcp_run_loader_bucket [of loader_func project bucket_n dir ?uri table_name ?w1] run
    by simp
  then show ?thesis
    using Some run
    by (simp add: ingest_file_def Let_def bind_io_def gcp_upload_ok return_def logging_apply)
qed


lemma steady_main_ingest_gcp: "steady (main_ingest_gcp (gcp project bucket_n dir))"
  unfolding main_ingest_gcp_def
  by (intro steady_bind steady_logging steady_create_dataset_if_not_exists steady_for_each
        steady_ingest_source)

lemma steady_world:
  assumes "steady m" and "m w = (r, l, w')"
  shows "local_dirs w' = local_dirs w \<and> local_files w' = local_files w"
  using assms unfolding steady_def keeps_def
  by (metis prod.inject)

lemma gcp_create_dataset_bucket:
  "bucket (snd (snd (create_dataset_if_not_exists (gcp project bucket_n dir) w))) = bucket w"
  by (simp add: create_dataset_if_not_exists_def gcp_def try_except_def bind_io_def call_def
        query_world_def raise_if_def logging_def Let_def)

text \<open>
  A readable file of the folder of a source is in the bucket when \<^verbatim>\<open>main\<close> returns: a later
  upload to the same blob name reads the same local file.
\<close>

lemma gcp_main_uploads:
  assumes m: "(source_folder, table_name, loader_func) \<in> set ingestion_map"
    and dir: "local_dirs w (path_join dir source_folder) = Some filenames"
    and f: "filename \<in> set filenames"
    and local: "local_files w (path_join (path_join dir source_folder) filename) = Some file"
    and run: "main_ingest_gcp (gcp project bucket_n dir) w = (Inr (), l, w')"
  shows "bucket w' (''gs://'' @ bucket_n @ ''/'' @ source_folder @ ''/'' @ filename) = Some file"
proof -
  let ?env = "gcp project bucket_n dir"
  let ?uri = "''gs://'' @ bucket_n @ ''/'' @ source_folder @ ''/'' @ filename"
  let ?I = "\<lambda>w1. local_dirs w1 = local_dirs w \<and> local_files w1 = local_files w"
  let ?Q = "\<lambda>w1. bucket w1 ?uri = Some file"
  let ?file_step = "\<lambda>sf tn lf. ingest_file ?env sf tn lf (path_join dir sf)"
  have I_file: "?I w2" if "?I w1" "?file_step sf tn lf fn w1 = (r, l1, w2)"
    for sf tn lf fn w1 r l1 w2
    using steady_world [OF steady_ingest_file that(2)] that(1) by simp
  have I_source: "?I w2" if "?I w1" "ingest_source ?env entry w1 = (r, l1, w2)"
    for entry w1 r l1 w2
    using steady_world [OF steady_ingest_source that(2)] that(1) by simp
  have Q_file: "?Q w2" if "?I w1" "?Q w1" "?file_step sf tn lf fn w1 = (r, l1, w2)"
    for sf tn lf fn w1 r l1 w2
  proof -
    have b: "bucket w2 =
        (case local_files w1 (path_join (path_join dir sf) fn) of
           None \<Rightarrow> bucket w1
         | Some obj \<Rightarrow> (bucket w1)(''gs://'' @ bucket_n @ ''/'' @ sf @ ''/'' @ fn \<mapsto> obj))"
      using gcp_ingest_file_world [of project bucket_n dir sf tn lf "path_join dir sf" fn w1]
        that(3) by simp
    show ?thesis
    proof (cases "local_files w1 (path_join (path_join dir sf) fn)")
      case None
      then show ?thesis using b that(2) by simp
    next
      case (Some obj)
      show ?thesis
      proof (cases "sf @ ''/'' @ fn = source_folder @ ''/'' @ filename")
        case True
        then have "path_join (path_join dir sf) fn
                     = path_join (path_join dir source_folder) filename"
          by (simp add: path_join_def)
        then have "obj = file"
          using Some local that(1) by simp
        then show ?thesis using b Some True by simp
      next
        case False
        then show ?thesis using b Some that(2) by simp
      qed
    qed
  qed
  have Q_est: "?Q w2"
    if "?I w1" "?file_step source_folder table_name loader_func filename w1 = (r, l1, w2)"
    for w1 r l1 w2
    using gcp_ingest_file_world [of project bucket_n dir source_folder table_name loader_func
        "path_join dir source_folder" filename w1] that local
    by simp
  have IQ_file: "?I w2 \<and> ?Q w2"
    if "?I w1 \<and> ?Q w1" "?file_step sf tn lf fn w1 = (r, l1, w2)"
    for sf tn lf fn w1 r l1 w2
    using I_file [OF _ that(2)] Q_file [OF _ _ that(2)] that(1) by blast
  have Q_source: "?Q w2" if i: "?I w1" and q: "?Q w1"
    and s: "ingest_source ?env entry w1 = (r, l1, w2)"
    for entry w1 r l1 w2
  proof -
    obtain sf tn lf where e: "entry = (sf, tn, lf)"
      by (cases entry) auto
    show ?thesis
    proof (cases "local_dirs w1 (path_join dir sf)")
      case None
      then show ?thesis
        using s q by (simp add: e gcp_ingest_source_missing)
    next
      case (Some names)
      have "for_each names (?file_step sf tn lf) w1 = (r, l1, w2)"
        using s by (simp add: e gcp_ingest_source_listed [OF Some])
      then have "?I w2 \<and> ?Q w2"
        by (rule for_each_preserves [of "\<lambda>w. ?I w \<and> ?Q w" "?file_step sf tn lf", rotated 2])
           (use IQ_file i q in blast)+
      then show ?thesis by simp
    qed
  qed
  have Q_source_est: "?Q w2"
    if i: "?I w1"
      and s: "ingest_source ?env (source_folder, table_name, loader_func) w1 = (Inr u, l1, w2)"
    for w1 u l1 w2
  proof -
    have d: "local_dirs w1 (path_join dir source_folder) = Some filenames"
      using i dir by simp
    have run: "for_each filenames (?file_step source_folder table_name loader_func) w1
            = (Inr u, l1, w2)"
      using s by (simp add: gcp_ingest_source_listed [OF d])
    show ?thesis
    proof (rule for_each_establishes
        [of ?I "?file_step source_folder table_name loader_func" ?Q filename, OF _ _ _ f i run])
      show "?I wb" if "?I wa"
        "?file_step source_folder table_name loader_func y wa = (r, la, wb)" for y wa r la wb
        using that by (rule I_file)
      show "?Q wb" if "?I wa" "?Q wa"
        "?file_step source_folder table_name loader_func y wa = (r, la, wb)" for y wa r la wb
        using that by (rule Q_file)
      show "?Q wb" if "?I wa"
        "?file_step source_folder table_name loader_func filename wa = (r, la, wb)"
        for wa r la wb
        using that by (rule Q_est)
    qed
  qed
  obtain l0 w0 where 0: "create_dataset_if_not_exists ?env w = (Inr (), l0, w0)" "keeps w w0"
    using steady_create_dataset_if_not_exists [of project bucket_n dir]
    unfolding steady_def by (metis old.unit.exhaust)
  have i0: "?I w0" using 0(2) by (simp add: keeps_def)
  have loop: "for_each ingestion_map (ingest_source ?env) w0 = (Inr (), drop (Suc (length l0)) l, w')"
    using run 0 by (auto simp: main_ingest_gcp_def bind_io_def logging_apply split: prod.splits sum.splits)
  show ?thesis
  proof (rule for_each_establishes
      [of ?I "ingest_source ?env" ?Q "(source_folder, table_name, loader_func)",
       OF _ _ _ m i0 loop])
    show "?I wb" if "?I wa" "ingest_source ?env y wa = (r, la, wb)" for y wa r la wb
      using that by (rule I_source)
    show "?Q wb" if "?I wa" "?Q wa" "ingest_source ?env y wa = (r, la, wb)" for y wa r la wb
      using that by (rule Q_source)
    show "?Q wb" if ia: "?I wa"
      and sa: "ingest_source ?env (source_folder, table_name, loader_func) wa = (r, la, wb)"
      for wa r la wb
    proof -
      have "\<exists>u. r = Inr u"
        using steady_ingest_source [of project bucket_n dir "(source_folder, table_name, loader_func)"]
          sa unfolding steady_def by (metis prod.inject)
      then show ?thesis using Q_source_est [OF ia] sa by auto
    qed
  qed
qed

text \<open>
  The body of the inner loop in any environment: \<^verbatim>\<open>upload_to_gcs\<close> returns None or a URI
  that is not empty, so \<^verbatim>\<open>if gcs_uri:\<close> is whether the upload succeeded.
\<close>

lemma ingest_file_eq:
  "ingest_file env source_folder table_name loader_func folder_path filename =
     bind_io (upload_to_gcs env (path_join folder_path filename) (source_folder @ ''/'' @ filename))
       (\<lambda>gcs_uri. case gcs_uri of
            None \<Rightarrow> return ()
          | Some uri \<Rightarrow>
              if endswith filename ''.csv'' \<or> endswith filename ''.json''
              then bind_io (logging (log_triggering table_name))
                     (\<lambda>_. run_loader loader_func env uri table_name)
              else return ())"
  by (rule ext)
     (auto simp: ingest_file_def upload_to_gcs_def Let_def bind_io_def try_except_def call_def
        logging_def return_def raise_if_def split: prod.splits sum.splits option.splits)


section \<open>The claims\<close>

text \<open>
  C1. The claim: a fact row whose \<^verbatim>\<open>customer_sk\<close> is the sentinel \<open>-1\<close> does not by itself
  make the referential-integrity check fail. The code: in Scenario D the left join finds no
  dimension row for \<open>-1\<close>, so \<^verbatim>\<open>tx_9\<close> is the one row counted, the check logs
  \<^verbatim>\<open>[FAIL]\<close> with \<^verbatim>\<open>Got 1\<close> and the gate fails, while the three other checks pass.
\<close>

theorem sentinel_fails_referential_integrity:
  "filter (\<lambda>(f, d). case d of None \<Rightarrow> True | Some d' \<Rightarrow> False)
     (left_join (fact_transactions scenario_D) (dim_customers scenario_D)) =
     [(\<lparr>transaction_id = ''tx_9'', customer_sk = Some (- 1),
        total_amount = Some 25, created_at = Some 1700000001\<rparr>, None)]
   \<and> execute scenario_D query_ref_integrity = [[PyInt 1]]
   \<and> run_test (bigquery scenario_D) ''Referential Integrity (Customer FK)''
        query_ref_integrity (PyInt 0) =
      (Inr False, [log_fail ''Referential Integrity (Customer FK)'' (PyInt 0) (PyInt 1)])
   \<and> passes (bigquery scenario_D) ''Uniqueness Check (Fact Transactions)'' query_uniqueness
   \<and> passes (bigquery scenario_D) ''Null Value Check (Critical Columns)'' query_nulls
   \<and> passes (bigquery scenario_D) ''SCD Logic Check (Time Travel)'' query_scd_logic
   \<and> fst (main_check_data_quality PROJECT_ID (bigquery scenario_D)) = Inr False"
proof -
  have rows: "filter (\<lambda>(f, d). case d of None \<Rightarrow> True | Some d' \<Rightarrow> False)
     (left_join (fact_transactions scenario_D) (dim_customers scenario_D)) =
     [(\<lparr>transaction_id = ''tx_9'', customer_sk = Some (- 1),
        total_amount = Some 25, created_at = Some 1700000001\<rparr>, None)]"
    by (simp add: left_join_def scenario_D_def)
  have p: "passes (bigquery scenario_D) n query_uniqueness"
    "\<not> passes (bigquery scenario_D) n query_ref_integrity"
    "passes (bigquery scenario_D) n query_nulls"
    "passes (bigquery scenario_D) n query_scd_logic" for n
    by (simp_all add: passes_def run_test_scenario_D scenario_D_counts)
  show ?thesis
    using rows p
    by (simp add: main_check_data_quality_fst run_test_scenario_D scenario_D_counts)
qed

text \<open>
  C2. For every client (any warehouse state, any failing query), \<^verbatim>\<open>main\<close> returns True
  exactly when all four checks pass, so a check that fails or errors makes the aggregate a
  failure. A check whose query raises returns False and is logged as \<^verbatim>\<open>[ERROR]\<close> with
  the exception; a check whose count differs from the expected value returns False and is
  logged as \<^verbatim>\<open>[FAIL]\<close> with both values; the two records are never the same.
\<close>

theorem gate_fails_if_any_check_fails_or_errors:
  "fst (main_check_data_quality PROJECT_ID client) =
     Inr (passes client ''Uniqueness Check (Fact Transactions)'' query_uniqueness
        \<and> passes client ''Referential Integrity (Customer FK)'' query_ref_integrity
        \<and> passes client ''Null Value Check (Critical Columns)'' query_nulls
        \<and> passes client ''SCD Logic Check (Time Travel)'' query_scd_logic)
   \<and> (client q = Inl e \<longrightarrow>
        run_test client n q x = (Inr False, [log_error n e]))
   \<and> (client q = Inr ((count # cells) # rows) \<and> count \<noteq> x \<longrightarrow>
        run_test client n q x = (Inr False, [log_fail n x count]))
   \<and> log_error n e \<noteq> log_fail n' x' count'"
proof -
  have "client q = Inl e \<Longrightarrow> run_test client n q x = (Inr False, [log_error n e])"
    by (rule run_test_raised) (simp add: run_test_try_def)
  moreover have "client q = Inr ((count # cells) # rows) \<Longrightarrow> count \<noteq> x \<Longrightarrow>
      run_test client n q x = (Inr False, [log_fail n x count])"
    by (simp add: run_test_count)
  moreover have "log_error n e \<noteq> log_fail n' x' count'"
    by (simp add: log_error_def log_fail_def)
  ultimately show ?thesis
    using main_check_data_quality_fst [of PROJECT_ID client] by blast
qed

theorem gate_fails_if_any_check_fails_or_errors_witness:
  "fst (main_check_data_quality ''p'' (\<lambda>q. Inl (GoogleAPIError ''503''))) = Inr False
   \<and> run_test (\<lambda>q. Inl (GoogleAPIError ''503'')) ''n'' query_nulls (PyInt 0) =
       (Inr False, [log_error ''n'' (GoogleAPIError ''503'')])
   \<and> run_test (bigquery scenario_D) ''n'' query_ref_integrity (PyInt 0) =
       (Inr False, [log_fail ''n'' (PyInt 0) (PyInt 1)])"
proof -
  have a: "\<not> passes (\<lambda>q. Inl (GoogleAPIError ''503'')) n q" for n q
    by (simp add: passes_def run_test_def run_test_try_def)
  have b: "bigquery scenario_D query_ref_integrity = Inr ((PyInt 1 # []) # [])"
    by (simp add: bigquery_def scenario_D_counts)
  show ?thesis
    using gate_fails_if_any_check_fails_or_errors
      [of "''p''" "\<lambda>q. Inl (GoogleAPIError ''503'')" query_nulls "GoogleAPIError ''503''"
        "''n''" "PyInt 0"]
      gate_fails_if_any_check_fails_or_errors
      [of "''p''" "bigquery scenario_D" query_ref_integrity _ "''n''" "PyInt 0" "PyInt 1" "[]" "[]"]
      a b
    by simp
qed

text \<open>
  C7. The uniqueness query returns the count 0 exactly when no \<^verbatim>\<open>transaction_id\<close> occurs
  twice in \<^verbatim>\<open>fact_transactions\<close>, and the uniqueness check, run against the warehouse,
  passes exactly then.
\<close>

theorem uniqueness_check_passes_iff_distinct:
  "(sql_uniqueness wh = [[PyInt 0]] \<longleftrightarrow> distinct (map transaction_id (fact_transactions wh)))
   \<and> (passes (bigquery wh) ''Uniqueness Check (Fact Transactions)'' query_uniqueness \<longleftrightarrow>
        distinct (map transaction_id (fact_transactions wh)))"
  using sql_uniqueness_zero [of wh] passes_uniqueness [of wh] by simp

theorem uniqueness_check_passes_iff_distinct_witness:
  "sql_uniqueness scenario_D = [[PyInt 0]]
   \<and> passes (bigquery scenario_D) ''Uniqueness Check (Fact Transactions)'' query_uniqueness"
  using uniqueness_check_passes_iff_distinct [of scenario_D]
  by (simp add: scenario_D_def)

text \<open>
  C8. Run standalone, the script exits with status 0 exactly when \<^verbatim>\<open>main\<close> returns True
  and with status 1 exactly when it returns False.
\<close>

theorem exit_code_reflects_aggregate:
  "(script_check_data_quality PROJECT_ID client = 0 \<longleftrightarrow>
      fst (main_check_data_quality PROJECT_ID client) = Inr True)
   \<and> (script_check_data_quality PROJECT_ID client = 1 \<longleftrightarrow>
      fst (main_check_data_quality PROJECT_ID client) = Inr False)"
  by (simp add: script_check_data_quality_def main_check_data_quality_fst)

theorem exit_code_reflects_aggregate_witness:
  "script_check_data_quality ''p'' (bigquery scenario_D) = 1"
  using exit_code_reflects_aggregate [of "''p''" "bigquery scenario_D"]
    run_test_scenario_D [of query_ref_integrity "PyInt 1"]
  by (simp add: main_check_data_quality_fst passes_def scenario_D_counts)

text \<open>
  C10. When the query returns no row, \<^verbatim>\<open>run_test\<close> compares 0 with the expected result,
  so it passes when 0 is expected; and \<^verbatim>\<open>run_test\<close> returns a boolean for every client,
  query and expected result: it never raises.
\<close>

theorem run_test_empty_result_and_total:
  "(client query = Inr [] \<longrightarrow>
      run_test client test_name query expected_result =
        (if PyInt 0 = expected_result then (Inr True, [log_pass test_name])
         else (Inr False, [log_fail test_name expected_result (PyInt 0)])))
   \<and> (client query = Inr [] \<longrightarrow>
      run_test client test_name query (PyInt 0) = (Inr True, [log_pass test_name]))
   \<and> (\<exists>b. fst (run_test client test_name query expected_result) = Inr b)"
  using run_test_returns [of client test_name query expected_result]
  by (simp add: run_test_no_rows)

theorem run_test_empty_result_and_total_witness:
  "run_test (\<lambda>q. Inr []) ''t'' query_nulls (PyInt 0) = (Inr True, [log_pass ''t''])
   \<and> (\<exists>b. fst (run_test (\<lambda>q. Inr []) ''t'' query_nulls (PyInt 0)) = Inr b)"
  using run_test_empty_result_and_total [of "\<lambda>q. Inr []" query_nulls "''t''" "PyInt 0"]
  by auto


section \<open>The claims about the batch loader\<close>

lemmas ingest_defs =
  main_ingest_gcp_def ingestion_map_def ingest_source_def ingest_file_def
  run_loader_def load_csv_to_bq_def load_json_to_bq_def load_try_def upload_to_gcs_def
  create_dataset_if_not_exists_def bind_io_def try_except_def return_def logging_def
  call_def query_world_def raise_if_def path_join_def endswith_def
  csv_job_config_def json_job_config_def json_schema_def DATASET_ID_def REGION_def
  num_rows_def Let_def

lemmas gcp_defs =
  GCP_def gcp_def bq_load_def load_columns_def skipped_def staged_def unknown_fields_def
  schema_of_def rows_of_def

text \<open>
  C3, as stated, fails: the load of \<open>six_bad_file\<close> skips six malformed records (within
  the threshold, so it completes), and the sixth, \<open>malformed ''r6''\<close>, is reported
  nowhere: the loader logs the number of errors and \<^verbatim>\<open>load_job.errors[:5]\<close>.
\<close>

theorem sixth_skipped_record_not_reported:
  "skipped csv_job_config [''customer_id''] (file_records six_bad_file) =
     [malformed ''r1'', malformed ''r2'', malformed ''r3'', malformed ''r4'',
      malformed ''r5'', malformed ''r6'']
   \<and> fst (load_csv_to_bq GCP ''gs://bkt/crm/a.csv'' ''stg_crm_customers'' six_bad_world) = Inr ()
   \<and> fst (snd (load_csv_to_bq GCP ''gs://bkt/crm/a.csv'' ''stg_crm_customers'' six_bad_world)) =
       [log_loaded ''proj.gigmart.stg_crm_customers'' 1,
        log_bad_count ''stg_crm_customers'' 6,
        log_bad_record (malformed ''r1''), log_bad_record (malformed ''r2''),
        log_bad_record (malformed ''r3''), log_bad_record (malformed ''r4''),
        log_bad_record (malformed ''r5'')]
   \<and> log_bad_record (malformed ''r6'')
       \<notin> set (fst (snd (load_csv_to_bq GCP ''gs://bkt/crm/a.csv'' ''stg_crm_customers''
                          six_bad_world)))"
proof -
  have log: "fst (snd (load_csv_to_bq GCP ''gs://bkt/crm/a.csv'' ''stg_crm_customers''
                          six_bad_world)) =
       [log_loaded ''proj.gigmart.stg_crm_customers'' 1,
        log_bad_count ''stg_crm_customers'' 6,
        log_bad_record (malformed ''r1''), log_bad_record (malformed ''r2''),
        log_bad_record (malformed ''r3''), log_bad_record (malformed ''r4''),
        log_bad_record (malformed ''r5'')]"
    by (simp add: ingest_defs gcp_defs six_bad_world_def six_bad_file_def)
  have ret: "fst (load_csv_to_bq GCP ''gs://bkt/crm/a.csv'' ''stg_crm_customers'' six_bad_world)
       = Inr ()"
    by (simp add: ingest_defs gcp_defs six_bad_world_def six_bad_file_def)
  have sk: "skipped csv_job_config [''customer_id''] (file_records six_bad_file) =
     [malformed ''r1'', malformed ''r2'', malformed ''r3'', malformed ''r4'',
      malformed ''r5'', malformed ''r6'']"
    by (simp add: skipped_def six_bad_file_def csv_job_config_def)
  have "log_bad_record (malformed ''r6'')
       \<notin> set (fst (snd (load_csv_to_bq GCP ''gs://bkt/crm/a.csv'' ''stg_crm_customers''
                          six_bad_world)))"
    unfolding log
    by (simp add: log_bad_record_inj malformed_def)
       (simp add: log_bad_record_def log_loaded_def log_bad_count_def)
  with log ret sk show ?thesis by simp
qed

text \<open>
  C3, amended. For a loader of \<^verbatim>\<open>ingestion_map\<close> on an uploaded file, with every
  service up: the threshold is 100; with at most 100 skipped records the load completes,
  the table receives the accepted records and the log is that of a completed load; with
  more than 100 the load fails, the loader logs \<^verbatim>\<open>Failed to load\<close> and the warehouse is
  unchanged; and a completed load reports exactly the first five skipped records, each
  with its reason, location and message, after the number of all of them.
\<close>

theorem skipped_records_threshold_and_report:
  assumes "(source_folder, table_name, loader_func) \<in> set ingestion_map"
    and "bucket w gcs_uri = Some file"
    and "cfg = job_config_of loader_func table_name"
    and "table_id = table_id_of (gcp project bucket_n dir) table_name"
    and "cols = load_columns cfg file (schema_of (tables w table_id))"
    and "bad = skipped cfg cols (file_records file)"
  shows "max_bad_records cfg = 100
    \<and> (length bad \<le> 100 \<longrightarrow>
         (\<exists>t. run_loader loader_func (gcp project bucket_n dir) gcs_uri table_name w =
                 (Inr (), completed_log table_name table_id bad t,
                  w\<lparr>tables := (tables w)(table_id \<mapsto> t)\<rparr>)
              \<and> table_rows t = rows_of (tables w table_id) @ staged cfg cols (file_records file)))
    \<and> (100 < length bad \<longrightarrow>
         run_loader loader_func (gcp project bucket_n dir) gcs_uri table_name w =
           (Inr (), [log_failed_to_load table_name (GoogleAPIError ''Too many errors encountered'')],
            w))
    \<and> (\<forall>t e. log_bad_record e \<in> set (completed_log table_name table_id bad t) \<longleftrightarrow>
               e \<in> set (take 5 bad))
    \<and> (\<forall>t. bad \<noteq> [] \<longrightarrow>
            log_bad_count table_name (int (length bad))
              \<in> set (completed_log table_name table_id bad t))"
proof -
  have a: "max_bad_records cfg = 100"
    using configured_job_config(1) [OF assms(1)] assms(3) by simp
  have b: "length bad \<le> 100 \<Longrightarrow>
         (\<exists>t. run_loader loader_func (gcp project bucket_n dir) gcs_uri table_name w =
                 (Inr (), completed_log table_name table_id bad t,
                  w\<lparr>tables := (tables w)(table_id \<mapsto> t)\<rparr>)
              \<and> table_rows t = rows_of (tables w table_id) @ staged cfg cols (file_records file))"
    using gcp_run_loader_within_threshold [OF assms(1,2,3,4,5) _ refl] assms(6) by auto
  have c: "100 < length bad \<Longrightarrow>
         run_loader loader_func (gcp project bucket_n dir) gcs_uri table_name w =
           (Inr (), [log_failed_to_load table_name (GoogleAPIError ''Too many errors encountered'')],
            w)"
    using gcp_run_loader_beyond_threshold [OF assms(1,2,3,4,5)] assms(6) by simp
  have d: "\<forall>t. bad \<noteq> [] \<longrightarrow>
            log_bad_count table_name (int (length bad))
              \<in> set (completed_log table_name table_id bad t)"
    by (simp add: completed_log_def)
  show ?thesis
    using a b c d by (simp add: log_bad_record_in_completed_log)
qed

theorem skipped_records_threshold_and_report_witness:
  "max_bad_records (job_config_of load_csv ''stg_crm_customers'') = 100
   \<and> (\<exists>t. run_loader load_csv GCP ''gs://bkt/crm/a.csv'' ''stg_crm_customers'' six_bad_world =
            (Inr (),
             completed_log ''stg_crm_customers'' ''proj.gigmart.stg_crm_customers''
               (skipped csv_job_config [''customer_id''] (file_records six_bad_file)) t,
             six_bad_world\<lparr>tables := (tables six_bad_world)
                                        (''proj.gigmart.stg_crm_customers'' \<mapsto> t)\<rparr>)
          \<and> table_rows t = [[(''customer_id'', ''c1'')]])
   \<and> run_loader load_csv GCP ''gs://bkt/crm/a.csv'' ''stg_crm_customers'' flood_world =
       (Inr (),
        [log_failed_to_load ''stg_crm_customers'' (GoogleAPIError ''Too many errors encountered'')],
        flood_world)"
proof -
  let ?flood = "\<lparr>file_fields = [''customer_id''],
                 file_records = replicate 101 (Bad (malformed ''r''))\<rparr>"
  have m: "(''crm'', ''stg_crm_customers'', load_csv) \<in> set ingestion_map"
    by (simp add: ingestion_map_def)
  have o: "bucket six_bad_world ''gs://bkt/crm/a.csv'' = Some six_bad_file"
    by (simp add: six_bad_world_def)
  have o': "bucket flood_world ''gs://bkt/crm/a.csv'' = Some ?flood"
    by (simp add: flood_world_def)
  have cols': "load_columns (job_config_of load_csv ''stg_crm_customers'') ?flood
                (schema_of (tables flood_world
                   (table_id_of (gcp ''proj'' ''bkt'' ''/data'') ''stg_crm_customers'')))
              = [''customer_id'']"
    by (simp add: load_columns_def job_config_of_def csv_job_config_def)
  have n': "100 < length (skipped (job_config_of load_csv ''stg_crm_customers'') [''customer_id'']
             (file_records ?flood))"
    by (simp add: skipped_def length_concat)
  have beyond: "run_loader load_csv GCP ''gs://bkt/crm/a.csv'' ''stg_crm_customers'' flood_world =
       (Inr (),
        [log_failed_to_load ''stg_crm_customers'' (GoogleAPIError ''Too many errors encountered'')],
        flood_world)"
    using skipped_records_threshold_and_report
      [OF m o' refl refl refl refl, of "''proj''" "''bkt''" "''/data''"] n'
    unfolding cols'
    by (simp add: GCP_def)
  have cols: "load_columns (job_config_of load_csv ''stg_crm_customers'') six_bad_file
                (schema_of (tables six_bad_world
                   (table_id_of (gcp ''proj'' ''bkt'' ''/data'') ''stg_crm_customers'')))
              = [''customer_id'']"
    by (simp add: load_columns_def job_config_of_def csv_job_config_def six_bad_file_def)
  have n: "length (skipped (job_config_of load_csv ''stg_crm_customers'') [''customer_id'']
             (file_records six_bad_file)) \<le> 100"
    by (simp add: skipped_def six_bad_file_def)
  have st: "staged (job_config_of load_csv ''stg_crm_customers'') [''customer_id'']
             (file_records six_bad_file) = [[(''customer_id'', ''c1'')]]"
    by (simp add: staged_def six_bad_file_def job_config_of_def csv_job_config_def
          unknown_fields_def)
  have r: "rows_of (tables six_bad_world
             (table_id_of (gcp ''proj'' ''bkt'' ''/data'') ''stg_crm_customers'')) = []"
    by (simp add: rows_of_def six_bad_world_def)
  have tid: "table_id_of (gcp ''proj'' ''bkt'' ''/data'') ''stg_crm_customers'' =
               ''proj.gigmart.stg_crm_customers''"
    by (simp add: table_id_of_def gcp_def DATASET_ID_def)
  have within: "max_bad_records (job_config_of load_csv ''stg_crm_customers'') = 100
   \<and> (\<exists>t. run_loader load_csv GCP ''gs://bkt/crm/a.csv'' ''stg_crm_customers'' six_bad_world =
            (Inr (),
             completed_log ''stg_crm_customers'' ''proj.gigmart.stg_crm_customers''
               (skipped csv_job_config [''customer_id''] (file_records six_bad_file)) t,
             six_bad_world\<lparr>tables := (tables six_bad_world)
                                        (''proj.gigmart.stg_crm_customers'' \<mapsto> t)\<rparr>)
          \<and> table_rows t = [[(''customer_id'', ''c1'')]])"
    using skipped_records_threshold_and_report
      [OF m o refl refl refl refl, of "''proj''" "''bkt''" "''/data''"] n
    unfolding cols st r
    by (simp add: GCP_def tid job_config_of_def)
  show ?thesis
    using within beyond by blast
qed

text \<open>
  C4. Whatever the services do (every call may raise), \<^verbatim>\<open>load_csv_to_bq\<close> and
  \<^verbatim>\<open>load_json_to_bq\<close> return, and so does the loop body for one file. Hence the loop
  over a folder goes through every file: what it does on \<open>before @ f # after\<close> is what it
  does on \<open>before\<close>, then on \<open>f\<close>, then on \<open>after\<close>, whatever happened to \<open>f\<close>. When
  listing an existing folder does not raise, the loop over the sources returns too, and
  goes through every source in the same way. An exception \<open>e\<close> raised in the \<^verbatim>\<open>try\<close>
  block of a loader is reported by that loader, as \<^verbatim>\<open>Failed to load\<close> with \<open>e\<close>.
\<close>

theorem load_failure_stays_within_loader:
  "(\<exists>l w'. load_csv_to_bq env gcs_uri table_name w = (Inr (), l, w'))
   \<and> (\<exists>l w'. load_json_to_bq env gcs_uri table_name w = (Inr (), l, w'))
   \<and> (load_try env gcs_uri table_name (table_id_of env table_name) csv_job_config w
          = (Inl e, l, w') \<longrightarrow>
        load_csv_to_bq env gcs_uri table_name w
          = (Inr (), l @ [log_failed_to_load table_name e], w'))
   \<and> (load_try env gcs_uri table_name (table_id_of env table_name) (json_job_config table_name) w
          = (Inl e, l, w') \<longrightarrow>
        load_json_to_bq env gcs_uri table_name w
          = (Inr (), l @ [log_failed_to_load table_name e], w'))
   \<and> (\<exists>l1 w1 l2 w2 l3 w3.
         for_each before (ingest_file env source_folder table_name loader_func folder_path) w
           = (Inr (), l1, w1)
       \<and> ingest_file env source_folder table_name loader_func folder_path f w1 = (Inr (), l2, w2)
       \<and> for_each after (ingest_file env source_folder table_name loader_func folder_path) w2
           = (Inr (), l3, w3)
       \<and> for_each (before @ f # after)
            (ingest_file env source_folder table_name loader_func folder_path) w
           = (Inr (), l1 @ l2 @ l3, w3))
   \<and> ((\<forall>p w. path_exists env p w \<longrightarrow> (\<exists>names. listdir env p w = Inr names)) \<longrightarrow>
        (\<exists>l1 w1 l2 w2 l3 w3.
           for_each sources_before (ingest_source env) w = (Inr (), l1, w1)
         \<and> ingest_source env entry w1 = (Inr (), l2, w2)
         \<and> for_each sources_after (ingest_source env) w2 = (Inr (), l3, w3)
         \<and> for_each (sources_before @ entry # sources_after) (ingest_source env) w
             = (Inr (), l1 @ l2 @ l3, w3)))"
proof -
  have loop: "\<exists>l1 w1 l2 w2 l3 w3.
         for_each xs body w = (Inr (), l1, w1)
       \<and> body x w1 = (Inr (), l2, w2)
       \<and> for_each ys body w2 = (Inr (), l3, w3)
       \<and> for_each (xs @ x # ys) body w = (Inr (), l1 @ l2 @ l3, w3)"
    if body: "\<And>y. never_raises (body y)"
    for body :: "'b \<Rightarrow> (unit, 'a) prog" and xs x ys
  proof -
    have "never_raises (for_each xs body)"
      using body by (rule never_raises_for_each)
    then obtain l1 w1 where 1: "for_each xs body w = (Inr (), l1, w1)"
      unfolding never_raises_def by (metis old.unit.exhaust)
    obtain l2 w2 where 2: "body x w1 = (Inr (), l2, w2)"
      using body [of x] unfolding never_raises_def by (metis old.unit.exhaust)
    have "never_raises (for_each ys body)"
      using body by (rule never_raises_for_each)
    then obtain l3 w3 where 3: "for_each ys body w2 = (Inr (), l3, w3)"
      unfolding never_raises_def by (metis old.unit.exhaust)
    have "for_each (xs @ x # ys) body w = (Inr (), l1 @ l2 @ l3, w3)"
      using 1 2 3 by (simp add: for_each_append bind_io_def)
    with 1 2 3 show ?thesis by blast
  qed
  have csv: "\<exists>l w'. load_csv_to_bq env gcs_uri table_name w = (Inr (), l, w')"
    using never_raises_load_csv_to_bq [of env gcs_uri table_name]
    unfolding never_raises_def by (metis old.unit.exhaust)
  have json: "\<exists>l w'. load_json_to_bq env gcs_uri table_name w = (Inr (), l, w')"
    using never_raises_load_json_to_bq [of env gcs_uri table_name]
    unfolding never_raises_def by (metis old.unit.exhaust)
  have files: "\<exists>l1 w1 l2 w2 l3 w3.
         for_each before (ingest_file env source_folder table_name loader_func folder_path) w
           = (Inr (), l1, w1)
       \<and> ingest_file env source_folder table_name loader_func folder_path f w1 = (Inr (), l2, w2)
       \<and> for_each after (ingest_file env source_folder table_name loader_func folder_path) w2
           = (Inr (), l3, w3)
       \<and> for_each (before @ f # after)
            (ingest_file env source_folder table_name loader_func folder_path) w
           = (Inr (), l1 @ l2 @ l3, w3)"
    by (rule loop) (rule never_raises_ingest_file)
  have sources: "\<exists>l1 w1 l2 w2 l3 w3.
           for_each sources_before (ingest_source env) w = (Inr (), l1, w1)
         \<and> ingest_source env entry w1 = (Inr (), l2, w2)
         \<and> for_each sources_after (ingest_source env) w2 = (Inr (), l3, w3)
         \<and> for_each (sources_before @ entry # sources_after) (ingest_source env) w
             = (Inr (), l1 @ l2 @ l3, w3)"
    if "\<forall>p w. path_exists env p w \<longrightarrow> (\<exists>names. listdir env p w = Inr names)"
    by (rule loop) (rule never_raises_ingest_source, use that in blast)
  have csv_reports: "load_try env gcs_uri table_name (table_id_of env table_name) csv_job_config w
          = (Inl e, l, w') \<Longrightarrow>
        load_csv_to_bq env gcs_uri table_name w
          = (Inr (), l @ [log_failed_to_load table_name e], w')"
    using run_loader_failed [of env gcs_uri table_name load_csv w e l w']
    by (simp add: run_loader_def job_config_of_def)
  have json_reports: "load_try env gcs_uri table_name (table_id_of env table_name)
          (json_job_config table_name) w = (Inl e, l, w') \<Longrightarrow>
        load_json_to_bq env gcs_uri table_name w
          = (Inr (), l @ [log_failed_to_load table_name e], w')"
    using run_loader_failed [of env gcs_uri table_name load_json w e l w']
    by (simp add: run_loader_def job_config_of_def)
  show ?thesis
    using csv json csv_reports json_reports files sources by blast
qed

text \<open>
  The witness: the warehouse refuses every load job. Both CSV files of the CRM folder are
  uploaded and handed to the loader, each failure is logged by the loader, and the loop
  goes on to the next file and to the next sources.
\<close>

theorem load_failure_stays_within_loader_witness:
  "(\<exists>l w'. load_csv_to_bq GCP_loads_down ''gs://bkt/crm/a.csv'' ''stg_crm_customers'' crm_world
              = (Inr (), l, w'))
   \<and> load_csv_to_bq GCP_loads_down ''gs://bkt/crm/a.csv'' ''stg_crm_customers'' crm_world
       = (Inr (), [log_failed_to_load ''stg_crm_customers''
                     (GoogleAPIError ''503 Service Unavailable'')], crm_world)
   \<and> (\<exists>l1 w1 l2 w2 l3 w3.
         for_each [] (ingest_source GCP_loads_down) crm_world = (Inr (), l1, w1)
       \<and> ingest_source GCP_loads_down (''crm'', ''stg_crm_customers'', load_csv) w1
           = (Inr (), l2, w2)
       \<and> for_each [(''erp'', ''stg_erp_inventory'', load_csv)] (ingest_source GCP_loads_down) w2
           = (Inr (), l3, w3)
       \<and> for_each ([] @ (''crm'', ''stg_crm_customers'', load_csv)
                      # [(''erp'', ''stg_erp_inventory'', load_csv)])
            (ingest_source GCP_loads_down) crm_world
           = (Inr (), l1 @ l2 @ l3, w3))
   \<and> fst (snd (main_ingest_gcp GCP_loads_down crm_world)) =
       [(INFO, [Lit ''Looking for data in: '', Lit ''/data'']),
        (INFO, [Lit ''Created dataset '', Lit ''proj.gigmart'', Lit ''.'']),
        (INFO, [Lit ''File '', Lit ''/data/crm/a.csv'', Lit '' uploaded to '', Lit ''crm/a.csv'',
                Lit ''.'']),
        log_triggering ''stg_crm_customers'',
        log_failed_to_load ''stg_crm_customers'' (GoogleAPIError ''503 Service Unavailable''),
        (INFO, [Lit ''File '', Lit ''/data/crm/notes.txt'', Lit '' uploaded to '',
                Lit ''crm/notes.txt'', Lit ''.'']),
        (INFO, [Lit ''File '', Lit ''/data/crm/b.csv'', Lit '' uploaded to '', Lit ''crm/b.csv'',
                Lit ''.'']),
        log_triggering ''stg_crm_customers'',
        log_failed_to_load ''stg_crm_customers'' (GoogleAPIError ''503 Service Unavailable''),
        (WARNING, [Lit ''Directory not found: '', Lit ''/data/erp'']),
        (WARNING, [Lit ''Directory not found: '', Lit ''/data/ecommerce'']),
        (WARNING, [Lit ''Directory not found: '', Lit ''/data/pos''])]"
proof -
  have ls: "\<forall>p w. path_exists GCP_loads_down p w \<longrightarrow>
              (\<exists>names. listdir GCP_loads_down p w = Inr names)"
    by (auto simp: GCP_loads_down_def GCP_def gcp_def)
  have log: "fst (snd (main_ingest_gcp GCP_loads_down crm_world)) =
       [(INFO, [Lit ''Looking for data in: '', Lit ''/data'']),
        (INFO, [Lit ''Created dataset '', Lit ''proj.gigmart'', Lit ''.'']),
        (INFO, [Lit ''File '', Lit ''/data/crm/a.csv'', Lit '' uploaded to '', Lit ''crm/a.csv'',
                Lit ''.'']),
        log_triggering ''stg_crm_customers'',
        log_failed_to_load ''stg_crm_customers'' (GoogleAPIError ''503 Service Unavailable''),
        (INFO, [Lit ''File '', Lit ''/data/crm/notes.txt'', Lit '' uploaded to '',
                Lit ''crm/notes.txt'', Lit ''.'']),
        (INFO, [Lit ''File '', Lit ''/data/crm/b.csv'', Lit '' uploaded to '', Lit ''crm/b.csv'',
                Lit ''.'']),
        log_triggering ''stg_crm_customers'',
        log_failed_to_load ''stg_crm_customers'' (GoogleAPIError ''503 Service Unavailable''),
        (WARNING, [Lit ''Directory not found: '', Lit ''/data/erp'']),
        (WARNING, [Lit ''Directory not found: '', Lit ''/data/ecommerce'']),
        (WARNING, [Lit ''Directory not found: '', Lit ''/data/pos''])]"
    by (simp add: ingest_defs gcp_defs GCP_loads_down_def crm_world_def crm_file_def
          log_triggering_def log_failed_to_load_def)
  have down: "load_try GCP_loads_down ''gs://bkt/crm/a.csv'' ''stg_crm_customers''
                (table_id_of GCP_loads_down ''stg_crm_customers'') csv_job_config crm_world
              = (Inl (GoogleAPIError ''503 Service Unavailable''), [], crm_world)"
    by (rule load_try_submit_raises) (simp add: GCP_loads_down_def)
  show ?thesis
    using load_failure_stays_within_loader
      [where env = GCP_loads_down and gcs_uri = "''gs://bkt/crm/a.csv''"
         and table_name = "''stg_crm_customers''" and w = crm_world
         and e = "GoogleAPIError ''503 Service Unavailable''" and l = "[]" and w' = crm_world
         and before = "[]" and source_folder = "''crm''" and loader_func = load_csv
         and folder_path = "''/data/crm''" and f = "''a.csv''" and after = "[]"
         and sources_before = "[]" and entry = "(''crm'', ''stg_crm_customers'', load_csv)"
         and sources_after = "[(''erp'', ''stg_erp_inventory'', load_csv)]"]
      ls log down
    by simp
qed

text \<open>
  C6. The claim: a load of zero rows completes and is surfaced as a warning. The code warns
  when \<^verbatim>\<open>table.num_rows == 0\<close>, the row count of the whole table after an appending load.
  On a second run, with one row already staged, a file without records loads nothing
  (\<open>staged\<close> is empty, the table still has its one row), and the loader logs
  \<^verbatim>\<open>Loaded 1 rows\<close> and no warning.
\<close>

theorem zero_rows_loaded_without_warning:
  "staged csv_job_config [''customer_id'']
      (file_records (the (bucket rerun_world ''gs://bkt/crm/a.csv''))) = []
   \<and> fst (load_csv_to_bq GCP ''gs://bkt/crm/a.csv'' ''stg_crm_customers'' rerun_world) = Inr ()
   \<and> fst (snd (load_csv_to_bq GCP ''gs://bkt/crm/a.csv'' ''stg_crm_customers'' rerun_world)) =
       [log_loaded ''proj.gigmart.stg_crm_customers'' 1]
   \<and> log_zero_rows ''proj.gigmart.stg_crm_customers''
       \<notin> set (fst (snd (load_csv_to_bq GCP ''gs://bkt/crm/a.csv'' ''stg_crm_customers''
                          rerun_world)))
   \<and> tables (snd (snd (load_csv_to_bq GCP ''gs://bkt/crm/a.csv'' ''stg_crm_customers''
                          rerun_world))) ''proj.gigmart.stg_crm_customers'' =
       Some \<lparr>table_schema = [''customer_id''], table_rows = [[(''customer_id'', ''c0'')]]\<rparr>"
proof -
  have log: "fst (snd (load_csv_to_bq GCP ''gs://bkt/crm/a.csv'' ''stg_crm_customers''
                         rerun_world)) =
       [log_loaded ''proj.gigmart.stg_crm_customers'' 1]"
    by (simp add: ingest_defs gcp_defs rerun_world_def log_loaded_def log_bad_count_def
          log_zero_rows_def)
  have rest: "staged csv_job_config [''customer_id'']
      (file_records (the (bucket rerun_world ''gs://bkt/crm/a.csv''))) = []"
    "fst (load_csv_to_bq GCP ''gs://bkt/crm/a.csv'' ''stg_crm_customers'' rerun_world) = Inr ()"
    "tables (snd (snd (load_csv_to_bq GCP ''gs://bkt/crm/a.csv'' ''stg_crm_customers''
                          rerun_world))) ''proj.gigmart.stg_crm_customers'' =
       Some \<lparr>table_schema = [''customer_id''], table_rows = [[(''customer_id'', ''c0'')]]\<rparr>"
    by (simp_all add: ingest_defs gcp_defs rerun_world_def)
  show ?thesis
    unfolding log using rest
    by (simp add: log_loaded_def log_zero_rows_def)
qed

text \<open>
  C5, as stated, fails for newline-delimited JSON: the POS file carries a field
  \<^verbatim>\<open>coupon\<close> that the table does not have; the load completes, and the table has not
  gained the column: the loader gives the job its explicit schema, with
  \<^verbatim>\<open>autodetect\<close> off and \<^verbatim>\<open>ignore_unknown_values\<close> on, so the field is dropped.
\<close>

theorem json_extra_column_is_dropped:
  "''coupon'' \<in> set (file_fields (the (bucket coupon_world ''gs://bkt/pos/p.json'')))
   \<and> ''coupon'' \<notin> set (schema_of (tables coupon_world ''proj.gigmart.stg_pos_transactions''))
   \<and> autodetect (json_job_config ''stg_pos_transactions'') = False
   \<and> fst (load_json_to_bq GCP ''gs://bkt/pos/p.json'' ''stg_pos_transactions'' coupon_world)
       = Inr ()
   \<and> fst (snd (load_json_to_bq GCP ''gs://bkt/pos/p.json'' ''stg_pos_transactions''
                  coupon_world)) = [log_loaded ''proj.gigmart.stg_pos_transactions'' 1]
   \<and> tables (snd (snd (load_json_to_bq GCP ''gs://bkt/pos/p.json'' ''stg_pos_transactions''
                          coupon_world))) ''proj.gigmart.stg_pos_transactions'' =
       Some \<lparr>table_schema = [''transaction_id'', ''store_id'', ''customer_id'', ''product_id'',
                              ''transaction_date'', ''quantity'', ''unit_price'', ''amount'',
                              ''event_type'', ''currency'', ''timestamp''],
             table_rows = [[(''transaction_id'', ''t1'')]]\<rparr>
   \<and> ''coupon'' \<notin> set (schema_of (tables (snd (snd (load_json_to_bq GCP ''gs://bkt/pos/p.json''
                          ''stg_pos_transactions'' coupon_world)))
                          ''proj.gigmart.stg_pos_transactions''))"
proof -
  have t: "tables (snd (snd (load_json_to_bq GCP ''gs://bkt/pos/p.json'' ''stg_pos_transactions''
                          coupon_world))) ''proj.gigmart.stg_pos_transactions'' =
       Some \<lparr>table_schema = [''transaction_id'', ''store_id'', ''customer_id'', ''product_id'',
                              ''transaction_date'', ''quantity'', ''unit_price'', ''amount'',
                              ''event_type'', ''currency'', ''timestamp''],
             table_rows = [[(''transaction_id'', ''t1'')]]\<rparr>"
    by (simp add: ingest_defs gcp_defs coupon_world_def)
  have rest: "''coupon'' \<in> set (file_fields (the (bucket coupon_world ''gs://bkt/pos/p.json'')))"
    "''coupon'' \<notin> set (schema_of (tables coupon_world ''proj.gigmart.stg_pos_transactions''))"
    "autodetect (json_job_config ''stg_pos_transactions'') = False"
    "fst (load_json_to_bq GCP ''gs://bkt/pos/p.json'' ''stg_pos_transactions'' coupon_world)
       = Inr ()"
    "fst (snd (load_json_to_bq GCP ''gs://bkt/pos/p.json'' ''stg_pos_transactions''
                  coupon_world)) = [log_loaded ''proj.gigmart.stg_pos_transactions'' 1]"
    by (simp_all add: ingest_defs gcp_defs coupon_world_def log_loaded_def)
  show ?thesis
    unfolding t using rest by (simp add: schema_of_def)
qed


text \<open>
  C5, amended. With every service up, for a loader as \<^verbatim>\<open>ingestion_map\<close> configures it and
  a file that is in the bucket. The records the load job skips are the malformed records of
  the file: an extra column never makes a record bad. If there are at most 100 of them, the
  load completes (nothing is logged as failed), the table keeps its rows, and its columns
  are its old columns and the columns the job loads. For \<^verbatim>\<open>load_csv_to_bq\<close> these are the
  columns of the file, so the table gains every extra column; for \<^verbatim>\<open>load_json_to_bq\<close>
  they are the columns of the explicit schema, so a field outside the schema and the table
  is not added. A column that no record of the file has is NULL in every row written. If
  there are more than 100 malformed records, the loader logs that the load failed and the
  world is unchanged: the table gains neither a row nor a column.
\<close>

theorem schema_widening_by_loader:
  assumes "(source_folder, table_name, loader_func) \<in> set ingestion_map"
    and "bucket w gcs_uri = Some file"
    and "cfg = job_config_of loader_func table_name"
    and "table_id = table_id_of (gcp project bucket_n dir) table_name"
    and "cols = load_columns cfg file (schema_of (tables w table_id))"
    and "bad = skipped cfg cols (file_records file)"
  shows "(length bad \<le> 100 \<longrightarrow>
           (\<exists>t. run_loader loader_func (gcp project bucket_n dir) gcs_uri table_name w =
                  (Inr (), completed_log table_name table_id bad t,
                   w\<lparr>tables := (tables w)(table_id \<mapsto> t)\<rparr>)
              \<and> (\<forall>e. log_failed_to_load table_name e
                     \<notin> set (completed_log table_name table_id bad t))
              \<and> set (table_schema t) = set (schema_of (tables w table_id)) \<union> set cols
              \<and> table_rows t = rows_of (tables w table_id) @ staged cfg cols (file_records file)))
         \<and> (100 < length bad \<longrightarrow>
              run_loader loader_func (gcp project bucket_n dir) gcs_uri table_name w =
                (Inr (),
                 [log_failed_to_load table_name (GoogleAPIError ''Too many errors encountered'')],
                 w))
         \<and> bad = concat (map (\<lambda>r. case r of Bad e \<Rightarrow> [e] | Good r \<Rightarrow> []) (file_records file))
         \<and> (loader_func = load_csv \<longrightarrow> cols = file_fields file)
         \<and> (loader_func = load_json \<longrightarrow>
               json_schema table_name = Some (the (json_schema table_name))
               \<and> cols = map fst (the (json_schema table_name)))
         \<and> (\<forall>c. (\<forall>r. Good r \<in> set (file_records file) \<longrightarrow> c \<notin> fst ` set r) \<longrightarrow>
                (\<forall>row \<in> set (staged cfg cols (file_records file)). map_of row c = None))"
proof -
  let ?t = "\<lparr>table_schema = schema_of (tables w table_id)
                  @ filter (\<lambda>c. c \<notin> set (schema_of (tables w table_id))) cols,
             table_rows = rows_of (tables w table_id) @ staged cfg cols (file_records file)\<rparr>"
  have run: "run_loader loader_func (gcp project bucket_n dir) gcs_uri table_name w =
               (Inr (), completed_log table_name table_id bad ?t,
                w\<lparr>tables := (tables w)(table_id \<mapsto> ?t)\<rparr>)"
    if "length bad \<le> 100"
    using gcp_run_loader_within_threshold [OF assms(1,2,3,4,5) _ refl] that assms(6) by simp
  have sch: "set (table_schema ?t) = set (schema_of (tables w table_id)) \<union> set cols"
    by auto
  have within: "length bad \<le> 100 \<longrightarrow>
           (\<exists>t. run_loader loader_func (gcp project bucket_n dir) gcs_uri table_name w =
                  (Inr (), completed_log table_name table_id bad t,
                   w\<lparr>tables := (tables w)(table_id \<mapsto> t)\<rparr>)
              \<and> (\<forall>e. log_failed_to_load table_name e
                     \<notin> set (completed_log table_name table_id bad t))
              \<and> set (table_schema t) = set (schema_of (tables w table_id)) \<union> set cols
              \<and> table_rows t = rows_of (tables w table_id) @ staged cfg cols (file_records file))"
    using run sch log_failed_not_in_completed_log
    by (intro impI exI [of _ ?t]) simp
  have beyond: "100 < length bad \<longrightarrow>
              run_loader loader_func (gcp project bucket_n dir) gcs_uri table_name w =
                (Inr (),
                 [log_failed_to_load table_name (GoogleAPIError ''Too many errors encountered'')],
                 w)"
    using gcp_run_loader_beyond_threshold [OF assms(1,2,3,4,5)] assms(6) by simp
  have malformed: "bad = concat (map (\<lambda>r. case r of Bad e \<Rightarrow> [e] | Good r \<Rightarrow> [])
                                 (file_records file))"
    using configured_skipped [OF assms(1)] assms(3,6) by simp
  have csv: "loader_func = load_csv \<longrightarrow> cols = file_fields file"
    using assms(3,5) by (simp add: load_columns_def job_config_of_def csv_job_config_def)
  have json: "loader_func = load_json \<longrightarrow>
      json_schema table_name = Some (the (json_schema table_name))
      \<and> cols = map fst (the (json_schema table_name))"
    using configured_cases [OF assms(1)] assms(3,5)
    by (auto simp: load_columns_def job_config_of_def json_job_config_def json_schema_def)
  have null: "\<forall>c. (\<forall>r. Good r \<in> set (file_records file) \<longrightarrow> c \<notin> fst ` set r) \<longrightarrow>
                  (\<forall>row \<in> set (staged cfg cols (file_records file)). map_of row c = None)"
    using staged_null by blast
  show ?thesis
    using within beyond malformed csv json null by blast
qed

theorem schema_widening_by_loader_witness:
  "(\<exists>t. run_loader load_json GCP ''gs://bkt/pos/p.json'' ''stg_pos_transactions'' coupon_world =
         (Inr (),
          completed_log ''stg_pos_transactions'' ''proj.gigmart.stg_pos_transactions'' [] t,
          coupon_world\<lparr>tables := (tables coupon_world)
                                   (''proj.gigmart.stg_pos_transactions'' \<mapsto> t)\<rparr>)
       \<and> set (table_schema t) = set (map fst (the (json_schema ''stg_pos_transactions'')))
       \<and> table_rows t = [[(''transaction_id'', ''t1'')]])
   \<and> (\<exists>t. run_loader load_csv GCP ''gs://bkt/crm/a.csv'' ''stg_crm_customers'' widen_world =
         (Inr (),
          completed_log ''stg_crm_customers'' ''proj.gigmart.stg_crm_customers'' [] t,
          widen_world\<lparr>tables := (tables widen_world)
                                  (''proj.gigmart.stg_crm_customers'' \<mapsto> t)\<rparr>)
       \<and> set (table_schema t) = {''customer_id'', ''name'', ''phone''}
       \<and> table_rows t = [[(''customer_id'', ''c0''), (''name'', ''Al'')],
                           [(''customer_id'', ''c9''), (''phone'', ''555'')]]
       \<and> map_of [(''customer_id'', ''c9''), (''phone'', ''555'')] ''name'' = None)
   \<and> run_loader load_csv GCP ''gs://bkt/crm/a.csv'' ''stg_crm_customers'' phone_flood_world =
       (Inr (),
        [log_failed_to_load ''stg_crm_customers'' (GoogleAPIError ''Too many errors encountered'')],
        phone_flood_world)
   \<and> tables phone_flood_world ''proj.gigmart.stg_crm_customers'' =
       Some \<lparr>table_schema = [''customer_id'', ''name''],
             table_rows = [[(''customer_id'', ''c0''), (''name'', ''Al'')]]\<rparr>"
proof -
  let ?file = "\<lparr>file_fields = [''transaction_id'', ''coupon''],
                file_records = [Good [(''transaction_id'', ''t1''), (''coupon'', ''X'')]]\<rparr>"
  let ?cols = "map fst (the (json_schema ''stg_pos_transactions''))"
  have m: "(''pos'', ''stg_pos_transactions'', load_json) \<in> set ingestion_map"
    by (simp add: ingestion_map_def)
  have o: "bucket coupon_world ''gs://bkt/pos/p.json'' = Some ?file"
    by (simp add: coupon_world_def)
  have tid: "table_id_of (gcp ''proj'' ''bkt'' ''/data'') ''stg_pos_transactions'' =
               ''proj.gigmart.stg_pos_transactions''"
    by (simp add: table_id_of_def gcp_def DATASET_ID_def)
  have cols: "load_columns (job_config_of load_json ''stg_pos_transactions'') ?file
                (schema_of (tables coupon_world ''proj.gigmart.stg_pos_transactions'')) = ?cols"
    by (simp add: load_columns_def job_config_of_def json_job_config_def json_schema_def)
  have sk: "skipped (job_config_of load_json ''stg_pos_transactions'') ?cols (file_records ?file)
              = []"
    by (simp add: skipped_def job_config_of_def json_job_config_def)
  have st: "staged (job_config_of load_json ''stg_pos_transactions'') ?cols (file_records ?file)
              = [[(''transaction_id'', ''t1'')]]"
    by (simp add: staged_def job_config_of_def json_job_config_def json_schema_def)
  have old: "schema_of (tables coupon_world ''proj.gigmart.stg_pos_transactions'') = ?cols"
    "rows_of (tables coupon_world ''proj.gigmart.stg_pos_transactions'') = []"
    by (simp_all add: schema_of_def rows_of_def coupon_world_def)
  have json: "\<exists>t. run_loader load_json GCP ''gs://bkt/pos/p.json'' ''stg_pos_transactions''
                  coupon_world =
         (Inr (),
          completed_log ''stg_pos_transactions'' ''proj.gigmart.stg_pos_transactions'' [] t,
          coupon_world\<lparr>tables := (tables coupon_world)
                                   (''proj.gigmart.stg_pos_transactions'' \<mapsto> t)\<rparr>)
       \<and> set (table_schema t) = set (map fst (the (json_schema ''stg_pos_transactions'')))
       \<and> table_rows t = [[(''transaction_id'', ''t1'')]]"
    using schema_widening_by_loader [OF m o refl tid [symmetric] cols [symmetric] sk [symmetric]]
    unfolding st old
    by (auto simp: GCP_def)
  let ?csv = "\<lparr>file_fields = [''customer_id'', ''phone''],
               file_records = [Good [(''customer_id'', ''c9''), (''phone'', ''555'')]]\<rparr>"
  have m': "(''crm'', ''stg_crm_customers'', load_csv) \<in> set ingestion_map"
    by (simp add: ingestion_map_def)
  have o': "bucket widen_world ''gs://bkt/crm/a.csv'' = Some ?csv"
    by (simp add: widen_world_def)
  have tid': "table_id_of (gcp ''proj'' ''bkt'' ''/data'') ''stg_crm_customers'' =
               ''proj.gigmart.stg_crm_customers''"
    by (simp add: table_id_of_def gcp_def DATASET_ID_def)
  have cols': "load_columns (job_config_of load_csv ''stg_crm_customers'') ?csv
                (schema_of (tables widen_world ''proj.gigmart.stg_crm_customers''))
               = [''customer_id'', ''phone'']"
    by (simp add: load_columns_def job_config_of_def csv_job_config_def)
  have sk': "skipped (job_config_of load_csv ''stg_crm_customers'') [''customer_id'', ''phone'']
               (file_records ?csv) = []"
    by (simp add: skipped_def job_config_of_def csv_job_config_def)
  have st': "staged (job_config_of load_csv ''stg_crm_customers'') [''customer_id'', ''phone'']
               (file_records ?csv) = [[(''customer_id'', ''c9''), (''phone'', ''555'')]]"
    by (simp add: staged_def job_config_of_def csv_job_config_def)
  have old': "schema_of (tables widen_world ''proj.gigmart.stg_crm_customers'')
                = [''customer_id'', ''name'']"
    "rows_of (tables widen_world ''proj.gigmart.stg_crm_customers'')
                = [[(''customer_id'', ''c0''), (''name'', ''Al'')]]"
    by (simp_all add: schema_of_def rows_of_def widen_world_def)
  have csv: "\<exists>t. run_loader load_csv GCP ''gs://bkt/crm/a.csv'' ''stg_crm_customers'' widen_world =
         (Inr (),
          completed_log ''stg_crm_customers'' ''proj.gigmart.stg_crm_customers'' [] t,
          widen_world\<lparr>tables := (tables widen_world)
                                  (''proj.gigmart.stg_crm_customers'' \<mapsto> t)\<rparr>)
       \<and> set (table_schema t) = {''customer_id'', ''name'', ''phone''}
       \<and> table_rows t = [[(''customer_id'', ''c0''), (''name'', ''Al'')],
                           [(''customer_id'', ''c9''), (''phone'', ''555'')]]
       \<and> map_of [(''customer_id'', ''c9''), (''phone'', ''555'')] ''name'' = None"
    using schema_widening_by_loader [OF m' o' refl tid' [symmetric] cols' [symmetric] sk' [symmetric]]
    unfolding st' old'
    by (auto simp: GCP_def)
  let ?flood = "\<lparr>file_fields = [''customer_id'', ''phone''],
                 file_records = replicate 101 (Bad (malformed ''r''))\<rparr>"
  have o'': "bucket phone_flood_world ''gs://bkt/crm/a.csv'' = Some ?flood"
    by (simp add: phone_flood_world_def)
  have n'': "100 < length (skipped (job_config_of load_csv ''stg_crm_customers'')
               (load_columns (job_config_of load_csv ''stg_crm_customers'') ?flood
                  (schema_of (tables phone_flood_world
                     (table_id_of (gcp ''proj'' ''bkt'' ''/data'') ''stg_crm_customers''))))
               (file_records ?flood))"
    by (simp add: skipped_def length_concat)
  have flood: "run_loader load_csv GCP ''gs://bkt/crm/a.csv'' ''stg_crm_customers''
                 phone_flood_world =
       (Inr (),
        [log_failed_to_load ''stg_crm_customers'' (GoogleAPIError ''Too many errors encountered'')],
        phone_flood_world)"
    using schema_widening_by_loader [OF m' o'' refl refl refl refl,
        of "''proj''" "''bkt''" "''/data''"] n''
    by (simp add: GCP_def)
  have unchanged: "tables phone_flood_world ''proj.gigmart.stg_crm_customers'' =
       Some \<lparr>table_schema = [''customer_id'', ''name''],
             table_rows = [[(''customer_id'', ''c0''), (''name'', ''Al'')]]\<rparr>"
    by (simp add: phone_flood_world_def)
  show ?thesis
    using json csv flood unchanged by blast
qed


text \<open>
  C9, as stated, fails: \<^verbatim>\<open>notes.txt\<close> is present in the CRM folder and holds a record;
  \<^verbatim>\<open>main\<close> uploads it and does not load it, since its name ends neither in \<^verbatim>\<open>.csv\<close>
  nor in \<^verbatim>\<open>.json\<close>. After the run the staging table holds the records of the two CSV
  files only.
\<close>

theorem file_without_suffix_is_not_staged:
  "local_dirs crm_world ''/data/crm'' = Some [''a.csv'', ''notes.txt'', ''b.csv'']
   \<and> local_files crm_world ''/data/crm/notes.txt'' = Some (crm_file ''c2'')
   \<and> fst (main_ingest_gcp GCP crm_world) = Inr ()
   \<and> bucket (snd (snd (main_ingest_gcp GCP crm_world))) ''gs://bkt/crm/notes.txt''
       = Some (crm_file ''c2'')
   \<and> tables (snd (snd (main_ingest_gcp GCP crm_world))) ''proj.gigmart.stg_crm_customers'' =
       Some \<lparr>table_schema = [''customer_id''],
             table_rows = [[(''customer_id'', ''c1'')], [(''customer_id'', ''c3'')]]\<rparr>
   \<and> [(''customer_id'', ''c2'')]
       \<notin> set (rows_of (tables (snd (snd (main_ingest_gcp GCP crm_world)))
                          ''proj.gigmart.stg_crm_customers''))"
proof -
  have t: "tables (snd (snd (main_ingest_gcp GCP crm_world))) ''proj.gigmart.stg_crm_customers'' =
       Some \<lparr>table_schema = [''customer_id''],
             table_rows = [[(''customer_id'', ''c1'')], [(''customer_id'', ''c3'')]]\<rparr>"
    by (simp add: ingest_defs gcp_defs crm_world_def crm_file_def)
  have rest: "local_dirs crm_world ''/data/crm'' = Some [''a.csv'', ''notes.txt'', ''b.csv'']"
    "local_files crm_world ''/data/crm/notes.txt'' = Some (crm_file ''c2'')"
    "fst (main_ingest_gcp GCP crm_world) = Inr ()"
    "bucket (snd (snd (main_ingest_gcp GCP crm_world))) ''gs://bkt/crm/notes.txt''
       = Some (crm_file ''c2'')"
    by (simp_all add: ingest_defs gcp_defs crm_world_def crm_file_def)
  show ?thesis
    unfolding t using rest by (simp add: rows_of_def)
qed


text \<open>
  C9, amended. In any environment, the body of the inner loop of \<^verbatim>\<open>main\<close> uploads the
  file, and calls the loader of the source exactly when the upload succeeded and the name
  of the file ends in \<^verbatim>\<open>.csv\<close> or \<^verbatim>\<open>.json\<close>; for any other name it only uploads.
  With every service up, \<^verbatim>\<open>main\<close> returns, and for each source of \<^verbatim>\<open>ingestion_map\<close>
  whose folder exists and each file listed in the folder that can be read: whatever its
  name, the file is in the bucket under the blob name \<^verbatim>\<open>source_folder/filename\<close>
  when \<^verbatim>\<open>main\<close> returns; if its name ends in \<^verbatim>\<open>.csv\<close> or \<^verbatim>\<open>.json\<close> and it has at most 100 skipped
  records, the rows of its accepted records are in the staging table of the source when
  \<^verbatim>\<open>main\<close> returns. The step for a file with any other name changes no table.
\<close>

theorem files_with_suffix_are_staged:
  assumes "(source_folder, table_name, loader_func) \<in> set ingestion_map"
    and "local_dirs w (path_join dir source_folder) = Some filenames"
    and "filename \<in> set filenames"
    and "local_files w (path_join (path_join dir source_folder) filename) = Some file"
    and "cfg = job_config_of loader_func table_name"
    and "cols = load_columns cfg file []"
  shows "(\<exists>l w'. main_ingest_gcp (gcp project bucket_n dir) w = (Inr (), l, w')
            \<and> bucket w' (''gs://'' @ bucket_n @ ''/'' @ source_folder @ ''/'' @ filename)
                = Some file
            \<and> ((endswith filename ''.csv'' \<or> endswith filename ''.json'')
                 \<and> length (skipped cfg cols (file_records file)) \<le> 100 \<longrightarrow>
               set (staged cfg cols (file_records file))
                 \<subseteq> set (rows_of (tables w' (table_id_of (gcp project bucket_n dir) table_name)))))
         \<and> (\<forall>other w1. \<not> endswith other ''.csv'' \<and> \<not> endswith other ''.json'' \<longrightarrow>
               tables (snd (snd (ingest_file (gcp project bucket_n dir) source_folder table_name
                                   loader_func (path_join dir source_folder) other w1)))
                 = tables w1)
         \<and> (\<forall>env folder_path name.
               ingest_file env source_folder table_name loader_func folder_path name =
                 bind_io (upload_to_gcs env (path_join folder_path name)
                            (source_folder @ ''/'' @ name))
                   (\<lambda>gcs_uri. case gcs_uri of
                        None \<Rightarrow> return ()
                      | Some uri \<Rightarrow>
                          if endswith name ''.csv'' \<or> endswith name ''.json''
                          then bind_io (logging (log_triggering table_name))
                                 (\<lambda>_. run_loader loader_func env uri table_name)
                          else return ()))"
proof -
  let ?env = "gcp project bucket_n dir"
  let ?uri = "''gs://'' @ bucket_n @ ''/'' @ source_folder @ ''/'' @ filename"
  let ?tid = "table_id_of ?env table_name"
  obtain l w' where run: "main_ingest_gcp ?env w = (Inr (), l, w')"
    using steady_main_ingest_gcp [of project bucket_n dir]
    unfolding steady_def by (metis old.unit.exhaust)
  have up: "bucket w' ?uri = Some file"
    using gcp_main_uploads [OF assms(1,2,3,4) run] .
  have st: "set (staged cfg cols (file_records file)) \<subseteq> set (rows_of (tables w' ?tid))"
    if "endswith filename ''.csv'' \<or> endswith filename ''.json''"
      and "length (skipped cfg cols (file_records file)) \<le> 100"
    using gcp_main_stages [OF assms(1,2,3) that(1) assms(4,5,6) that(2),
        of project bucket_n] run
    by auto
  have main: "\<exists>l w'. main_ingest_gcp ?env w = (Inr (), l, w')
            \<and> bucket w' ?uri = Some file
            \<and> ((endswith filename ''.csv'' \<or> endswith filename ''.json'')
                 \<and> length (skipped cfg cols (file_records file)) \<le> 100 \<longrightarrow>
               set (staged cfg cols (file_records file)) \<subseteq> set (rows_of (tables w' ?tid)))"
    using run up st by blast
  show ?thesis
    using main gcp_ingest_file_other ingest_file_eq by blast
qed

theorem files_with_suffix_are_staged_witness:
  "(\<exists>l w'. main_ingest_gcp GCP crm_world = (Inr (), l, w')
        \<and> bucket w' ''gs://bkt/crm/b.csv'' = Some (crm_file ''c3'')
        \<and> set [[(''customer_id'', ''c3'')]]
            \<subseteq> set (rows_of (tables w' ''proj.gigmart.stg_crm_customers'')))
   \<and> (\<exists>l w'. main_ingest_gcp GCP crm_world = (Inr (), l, w')
        \<and> bucket w' ''gs://bkt/crm/notes.txt'' = Some (crm_file ''c2''))"
proof -
  have m: "(''crm'', ''stg_crm_customers'', load_csv) \<in> set ingestion_map"
    by (simp add: ingestion_map_def)
  have d: "local_dirs crm_world (path_join ''/data'' ''crm'')
             = Some [''a.csv'', ''notes.txt'', ''b.csv'']"
    by (simp add: crm_world_def path_join_def)
  have f: "''b.csv'' \<in> set [''a.csv'', ''notes.txt'', ''b.csv'']" by simp
  have s: "endswith ''b.csv'' ''.csv'' \<or> endswith ''b.csv'' ''.json''"
    by (simp add: endswith_def)
  have l: "local_files crm_world (path_join (path_join ''/data'' ''crm'') ''b.csv'')
             = Some (crm_file ''c3'')"
    by (simp add: crm_world_def path_join_def)
  have cols: "load_columns (job_config_of load_csv ''stg_crm_customers'') (crm_file ''c3'') []
                = [''customer_id'']"
    by (simp add: load_columns_def job_config_of_def csv_job_config_def crm_file_def)
  have n: "length (skipped (job_config_of load_csv ''stg_crm_customers'') [''customer_id'']
                     (file_records (crm_file ''c3''))) \<le> 100"
    by (simp add: skipped_def crm_file_def job_config_of_def csv_job_config_def)
  have st: "staged (job_config_of load_csv ''stg_crm_customers'') [''customer_id'']
              (file_records (crm_file ''c3'')) = [[(''customer_id'', ''c3'')]]"
    by (simp add: staged_def crm_file_def job_config_of_def csv_job_config_def
          unknown_fields_def)
  have tid: "table_id_of (gcp ''proj'' ''bkt'' ''/data'') ''stg_crm_customers'' =
               ''proj.gigmart.stg_crm_customers''"
    by (simp add: table_id_of_def gcp_def DATASET_ID_def)
  have csv: "\<exists>l w'. main_ingest_gcp GCP crm_world = (Inr (), l, w')
        \<and> bucket w' ''gs://bkt/crm/b.csv'' = Some (crm_file ''c3'')
        \<and> set [[(''customer_id'', ''c3'')]]
            \<subseteq> set (rows_of (tables w' ''proj.gigmart.stg_crm_customers''))"
    using files_with_suffix_are_staged [OF m d f l refl cols [symmetric],
        of "''proj''" "''bkt''"] s n
    unfolding st tid GCP_def
    by auto
  have f': "''notes.txt'' \<in> set [''a.csv'', ''notes.txt'', ''b.csv'']" by simp
  have l': "local_files crm_world (path_join (path_join ''/data'' ''crm'') ''notes.txt'')
             = Some (crm_file ''c2'')"
    by (simp add: crm_world_def path_join_def)
  have plain: "\<exists>l w'. main_ingest_gcp GCP crm_world = (Inr (), l, w')
        \<and> bucket w' ''gs://bkt/crm/notes.txt'' = Some (crm_file ''c2'')"
    using files_with_suffix_are_staged [OF m d f' l' refl refl, of "''proj''" "''bkt''"]
    unfolding GCP_def
    by auto
  show ?thesis
    using csv plain by blast
qed

end
